theory Spec2Isabelle
  imports Complex_Main "HOL-Library.Log_Nat"
begin

section \<open>Python values\<close>

text \<open>
  \<^verbatim>\<open>analyze_extreme_conditions(data: dict, unit: str = "metric") -> list\<close> of
  \<^verbatim>\<open>weather_service.py\<close> reads a decoded JSON document with \<^verbatim>\<open>dict.get\<close>, list
  indexing, arithmetic and comparisons, all dynamically typed. The values are therefore
  modelled as Python has them after \<^verbatim>\<open>response.json()\<close>: \<^verbatim>\<open>None\<close>, \<^verbatim>\<open>bool\<close>,
  unbounded \<^verbatim>\<open>int\<close>, \<^verbatim>\<open>float\<close>, \<^verbatim>\<open>str\<close>, \<^verbatim>\<open>list\<close> and \<^verbatim>\<open>dict\<close>. Every exception
  the function can raise is a value of \<open>pyerr\<close>, and a computation that can raise has a
  result of type \<open>pyerr + 'a\<close>.

  A \<^verbatim>\<open>str\<close> is held as the bytes of its UTF-8 encoding. A \<^verbatim>\<open>dict\<close> is an association list
  with string keys (the keys of a JSON object); a lookup takes the first binding of the key.
\<close>

datatype pyerr =
  AttributeError | IndexError | KeyError | TypeError | ValueError | OverflowError
  | ZeroDivisionError

text \<open>
  A \<^verbatim>\<open>float\<close> is an IEEE double: \<open>Finite r\<close> is the double whose exact value is the
  rational \<open>r\<close> (with \<open>Finite 0\<close> for \<^verbatim>\<open>0.0\<close>), \<open>NegZero\<close> is \<^verbatim>\<open>-0.0\<close>.
\<close>

datatype pyfloat = Finite rat | NegZero | PosInf | NegInf | NaN

datatype pyval =
  PNone | PBool bool | PInt int | PFloat pyfloat | PStr string | PList "pyval list"
  | PDict "(string \<times> pyval) list"

definition and_then :: "'e + 'a \<Rightarrow> ('a \<Rightarrow> 'e + 'b) \<Rightarrow> 'e + 'b" where
  "and_then r f = (case r of Inl e \<Rightarrow> Inl e | Inr x \<Rightarrow> f x)"

subsection \<open>Rounding to a double\<close>

definition pow2 :: "int \<Rightarrow> rat" where
  "pow2 e = (if 0 \<le> e then 2 ^ nat e else 1 / 2 ^ nat (- e))"

text \<open>\<open>ilog2 x\<close> is \<open>\<lfloor>log\<^sub>2 x\<rfloor>\<close> for a positive rational.\<close>

definition ilog2 :: "rat \<Rightarrow> int" where
  "ilog2 x = (if 1 \<le> x then bitlen \<lfloor>x\<rfloor> - 1 else - bitlen (\<lceil>1 / x\<rceil> - 1))"

definition round_half_even :: "rat \<Rightarrow> int" where
  "round_half_even x = (let f = \<lfloor>x\<rfloor>; d = x - of_int f
     in if d < 1 / 2 then f else if 1 / 2 < d then f + 1 else if even f then f else f + 1)"

text \<open>
  Round to nearest, ties to even, with 53 bits of precision, gradual underflow below
  \<open>2\<^sup>-\<^sup>1\<^sup>0\<^sup>2\<^sup>2\<close> and overflow to an infinity from \<open>2\<^sup>1\<^sup>0\<^sup>2\<^sup>4 - 2\<^sup>9\<^sup>7\<^sup>0\<close> on: the result of
  every float operation of CPython, and of reading a decimal literal.
\<close>

definition double_of_rat :: "rat \<Rightarrow> pyfloat" where
  "double_of_rat x = (if x = 0 then Finite 0 else
     let e = max (ilog2 \<bar>x\<bar>) (- 1022) - 52;
         m = round_half_even (\<bar>x\<bar> / pow2 e);
         y = of_int m * pow2 e
     in if 2 ^ 1024 \<le> y then (if 0 < x then PosInf else NegInf)
        else if m = 0 then (if 0 < x then Finite 0 else NegZero)
        else Finite (if 0 < x then y else - y))"

text \<open>
  The least magnitude that rounds out of the doubles. Converting an \<^verbatim>\<open>int\<close> of at least
  this magnitude to \<^verbatim>\<open>float\<close> raises \<^verbatim>\<open>OverflowError\<close> (int too large to convert to
  float), and so does a true division of two \<^verbatim>\<open>int\<close>s with such a quotient.
\<close>

definition float_overflow :: rat where
  "float_overflow = 2 ^ 1024 - 2 ^ 970"

definition float_of_int :: "int \<Rightarrow> pyerr + pyfloat" where
  "float_of_int n =
     (if float_overflow \<le> \<bar>of_int n\<bar> then Inl OverflowError
      else Inr (double_of_rat (of_int n)))"

subsection \<open>Float arithmetic\<close>

fun fneg :: "pyfloat \<Rightarrow> bool" where
  "fneg (Finite r) = (r < 0)"
| "fneg NegZero = True"
| "fneg NegInf = True"
| "fneg _ = False"

fun fval :: "pyfloat \<Rightarrow> rat" where
  "fval (Finite r) = r"
| "fval _ = 0"

definition fzero :: "pyfloat \<Rightarrow> bool" where
  "fzero x = (x = Finite 0 \<or> x = NegZero)"

definition finf :: "pyfloat \<Rightarrow> bool" where
  "finf x = (x = PosInf \<or> x = NegInf)"

definition fsub :: "pyfloat \<Rightarrow> pyfloat \<Rightarrow> pyfloat" where
  "fsub a b =
     (if a = NaN \<or> b = NaN then NaN
      else if finf a then (if a = b then NaN else a)
      else if finf b then (if b = PosInf then NegInf else PosInf)
      else if fval a - fval b = 0 then (if a = NegZero \<and> b = Finite 0 then NegZero else Finite 0)
      else double_of_rat (fval a - fval b))"

definition fmul :: "pyfloat \<Rightarrow> pyfloat \<Rightarrow> pyfloat" where
  "fmul a b =
     (if a = NaN \<or> b = NaN then NaN
      else if finf a \<or> finf b then
        (if fzero a \<or> fzero b then NaN else if fneg a \<noteq> fneg b then NegInf else PosInf)
      else if fzero a \<or> fzero b then (if fneg a \<noteq> fneg b then NegZero else Finite 0)
      else double_of_rat (fval a * fval b))"

text \<open>\<open>fdiv a b\<close> for a divisor that is not a zero (Python raises on a zero before dividing).\<close>

definition fdiv :: "pyfloat \<Rightarrow> pyfloat \<Rightarrow> pyfloat" where
  "fdiv a b =
     (if a = NaN \<or> b = NaN then NaN
      else if finf a then (if finf b then NaN else if fneg a \<noteq> fneg b then NegInf else PosInf)
      else if finf b \<or> fzero a then (if fneg a \<noteq> fneg b then NegZero else Finite 0)
      else double_of_rat (fval a / fval b))"

subsection \<open>Numbers: \<^verbatim>\<open>int\<close>, \<^verbatim>\<open>bool\<close> and \<^verbatim>\<open>float\<close>\<close>

datatype pynum = NInt int | NFloat pyfloat

text \<open>The numeric view of a value: \<^verbatim>\<open>bool\<close> is a subclass of \<^verbatim>\<open>int\<close>.\<close>

fun as_num :: "pyval \<Rightarrow> pynum option" where
  "as_num (PBool b) = Some (NInt (if b then 1 else 0))"
| "as_num (PInt n) = Some (NInt n)"
| "as_num (PFloat x) = Some (NFloat x)"
| "as_num _ = None"

fun of_num :: "pynum \<Rightarrow> pyval" where
  "of_num (NInt n) = PInt n"
| "of_num (NFloat x) = PFloat x"

fun num_to_float :: "pynum \<Rightarrow> pyerr + pyfloat" where
  "num_to_float (NInt n) = float_of_int n"
| "num_to_float (NFloat x) = Inr x"

text \<open>
  \<^verbatim>\<open>int - int\<close> and \<^verbatim>\<open>int * int\<close> are exact; with a \<^verbatim>\<open>float\<close> operand both operands are
  converted to \<^verbatim>\<open>float\<close> first.
\<close>

fun num_sub :: "pynum \<Rightarrow> pynum \<Rightarrow> pyerr + pynum" where
  "num_sub (NInt a) (NInt b) = Inr (NInt (a - b))"
| "num_sub x y =
     and_then (num_to_float x) (\<lambda>a. and_then (num_to_float y) (\<lambda>b. Inr (NFloat (fsub a b))))"

fun num_mul :: "pynum \<Rightarrow> pynum \<Rightarrow> pyerr + pynum" where
  "num_mul (NInt a) (NInt b) = Inr (NInt (a * b))"
| "num_mul x y =
     and_then (num_to_float x) (\<lambda>a. and_then (num_to_float y) (\<lambda>b. Inr (NFloat (fmul a b))))"

text \<open>
  True division. \<^verbatim>\<open>int / int\<close> is the correctly rounded quotient
  (\<^verbatim>\<open>0 / -5\<close> is \<^verbatim>\<open>-0.0\<close>), or \<^verbatim>\<open>OverflowError\<close> when it is too large for a float.
\<close>

fun num_truediv :: "pynum \<Rightarrow> pynum \<Rightarrow> pyerr + pynum" where
  "num_truediv (NInt a) (NInt b) =
     (if b = 0 then Inl ZeroDivisionError
      else if float_overflow \<le> \<bar>of_int a / of_int b\<bar> then Inl OverflowError
      else if a = 0 \<and> b < 0 then Inr (NFloat NegZero)
      else Inr (NFloat (double_of_rat (of_int a / of_int b))))"
| "num_truediv x y =
     and_then (num_to_float x) (\<lambda>a. and_then (num_to_float y) (\<lambda>b.
       if fzero b then Inl ZeroDivisionError else Inr (NFloat (fdiv a b))))"

text \<open>
  The operators on values. No JSON value other than a number supports \<^verbatim>\<open>-\<close> or \<^verbatim>\<open>/\<close>.
  \<open>py_mul\<close> is the product of numbers only: the repetition of a \<^verbatim>\<open>str\<close> or a \<^verbatim>\<open>list\<close> is
  left out, since the program multiplies nothing but the result of a subtraction
  (lemma \<open>py_sub_number\<close> below).
\<close>

definition py_sub :: "pyval \<Rightarrow> pyval \<Rightarrow> pyerr + pyval" where
  "py_sub v w = (case (as_num v, as_num w) of
     (Some x, Some y) \<Rightarrow> and_then (num_sub x y) (\<lambda>z. Inr (of_num z))
   | _ \<Rightarrow> Inl TypeError)"

definition py_mul :: "pyval \<Rightarrow> pyval \<Rightarrow> pyerr + pyval" where
  "py_mul v w = (case (as_num v, as_num w) of
     (Some x, Some y) \<Rightarrow> and_then (num_mul x y) (\<lambda>z. Inr (of_num z))
   | _ \<Rightarrow> Inl TypeError)"

definition py_truediv :: "pyval \<Rightarrow> pyval \<Rightarrow> pyerr + pyval" where
  "py_truediv v w = (case (as_num v, as_num w) of
     (Some x, Some y) \<Rightarrow> and_then (num_truediv x y) (\<lambda>z. Inr (of_num z))
   | _ \<Rightarrow> Inl TypeError)"

subsection \<open>Comparisons with an \<^verbatim>\<open>int\<close> literal\<close>

text \<open>
  Every comparison of the program has an \<^verbatim>\<open>int\<close> literal on one side. Python compares an
  \<^verbatim>\<open>int\<close> with a \<^verbatim>\<open>float\<close> exactly; a NaN is unordered; any other value against an \<^verbatim>\<open>int\<close>
  raises \<^verbatim>\<open>TypeError\<close>.
\<close>

datatype cmp = Lt | Eq | Gt | Unordered

definition rat_cmp :: "rat \<Rightarrow> rat \<Rightarrow> cmp" where
  "rat_cmp a b = (if a < b then Lt else if a = b then Eq else Gt)"

fun num_cmp :: "pynum \<Rightarrow> int \<Rightarrow> cmp" where
  "num_cmp (NInt a) n = rat_cmp (of_int a) (of_int n)"
| "num_cmp (NFloat (Finite r)) n = rat_cmp r (of_int n)"
| "num_cmp (NFloat NegZero) n = rat_cmp 0 (of_int n)"
| "num_cmp (NFloat PosInf) n = Gt"
| "num_cmp (NFloat NegInf) n = Lt"
| "num_cmp (NFloat NaN) n = Unordered"

definition py_cmp :: "pyval \<Rightarrow> int \<Rightarrow> pyerr + cmp" where
  "py_cmp v n = (case as_num v of None \<Rightarrow> Inl TypeError | Some x \<Rightarrow> Inr (num_cmp x n))"

text \<open>\<^verbatim>\<open>v >= n\<close>, \<^verbatim>\<open>v <= n\<close>, \<^verbatim>\<open>v < n\<close> and \<^verbatim>\<open>n <= v\<close>.\<close>

definition py_ge :: "pyval \<Rightarrow> int \<Rightarrow> pyerr + bool" where
  "py_ge v n = and_then (py_cmp v n) (\<lambda>c. Inr (c = Gt \<or> c = Eq))"

definition py_le :: "pyval \<Rightarrow> int \<Rightarrow> pyerr + bool" where
  "py_le v n = and_then (py_cmp v n) (\<lambda>c. Inr (c = Lt \<or> c = Eq))"

definition py_lt :: "pyval \<Rightarrow> int \<Rightarrow> pyerr + bool" where
  "py_lt v n = and_then (py_cmp v n) (\<lambda>c. Inr (c = Lt))"

definition py_int_le :: "int \<Rightarrow> pyval \<Rightarrow> pyerr + bool" where
  "py_int_le n v = and_then (py_cmp v n) (\<lambda>c. Inr (c = Gt \<or> c = Eq))"

text \<open>The chained comparison \<^verbatim>\<open>lo <= v < hi\<close>: \<^verbatim>\<open>v < hi\<close> is evaluated only if \<^verbatim>\<open>lo <= v\<close>.\<close>

definition py_between :: "int \<Rightarrow> pyval \<Rightarrow> int \<Rightarrow> pyerr + bool" where
  "py_between lo v hi = and_then (py_int_le lo v) (\<lambda>c. if c then py_lt v hi else Inr False)"

text \<open>\<^verbatim>\<open>v in [n1, n2, ...]\<close> for a list of \<^verbatim>\<open>int\<close> literals: \<^verbatim>\<open>==\<close> never raises.\<close>

definition py_eq_int :: "pyval \<Rightarrow> int \<Rightarrow> bool" where
  "py_eq_int v n = (case as_num v of None \<Rightarrow> False | Some x \<Rightarrow> num_cmp x n = Eq)"

definition py_in :: "pyval \<Rightarrow> int list \<Rightarrow> bool" where
  "py_in v ns = list_ex (py_eq_int v) ns"

subsection \<open>Formatting\<close>

text \<open>Decimal digits of a natural number given as an \<open>int\<close>.\<close>

function dec :: "int \<Rightarrow> string" where
  "dec n = (if n < 10 then [''0123456789'' ! nat n]
     else dec (n div 10) @ [''0123456789'' ! nat (n mod 10)])"
  by pat_completeness auto
termination
  by (relation "measure nat") auto

declare dec.simps [simp del]

text \<open>
  The format specification \<^verbatim>\<open>.1f\<close> on a float: the exact value rounded half-even to one
  decimal; the sign is kept when the digits are all zero (\<^verbatim>\<open>-0.04\<close> gives \<^verbatim>\<open>-0.0\<close>).
\<close>

fun format_1f :: "pyfloat \<Rightarrow> string" where
  "format_1f (Finite r) = (let n = round_half_even (\<bar>r\<bar> * 10)
     in (if r < 0 then ''-'' else []) @ dec (n div 10) @ ''.'' @ dec (n mod 10))"
| "format_1f NegZero = ''-0.0''"
| "format_1f PosInf = ''inf''"
| "format_1f NegInf = ''-inf''"
| "format_1f NaN = ''nan''"

text \<open>
  \<^verbatim>\<open>f"{v:.1f}"\<close>: an \<^verbatim>\<open>int\<close> (and a \<^verbatim>\<open>bool\<close>) is converted to \<^verbatim>\<open>float\<close> first, which raises
  \<^verbatim>\<open>OverflowError\<close> when it is too large; a \<^verbatim>\<open>str\<close> raises \<^verbatim>\<open>ValueError\<close>, and \<^verbatim>\<open>None\<close>, a
  \<^verbatim>\<open>list\<close> and a \<^verbatim>\<open>dict\<close> raise \<^verbatim>\<open>TypeError\<close>.
\<close>

fun py_format_1f :: "pyval \<Rightarrow> pyerr + string" where
  "py_format_1f (PBool b) = Inr (format_1f (Finite (if b then 1 else 0)))"
| "py_format_1f (PInt n) = and_then (float_of_int n) (\<lambda>x. Inr (format_1f x))"
| "py_format_1f (PFloat x) = Inr (format_1f x)"
| "py_format_1f (PStr s) = Inl ValueError"
| "py_format_1f _ = Inl TypeError"

text \<open>
  \<^verbatim>\<open>repr\<close> of a float: the shortest decimal that reads back as the same double (the
  nearest one when there are two, the even one on a tie), in fixed notation when the
  decimal point falls within \<open>(-4, 16]\<close> and in exponent notation otherwise.
\<close>

definition pow10 :: "int \<Rightarrow> rat" where
  "pow10 e = (if 0 \<le> e then 10 ^ nat e else 1 / 10 ^ nat (- e))"

function declen :: "int \<Rightarrow> int" where
  "declen n = (if 0 < n then declen (n div 10) + 1 else 0)"
  by pat_completeness auto
termination
  by (relation "measure nat") auto

declare declen.simps [simp del]

text \<open>\<open>ilog10 x\<close> is \<open>\<lfloor>log\<^sub>1\<^sub>0 x\<rfloor>\<close> for a positive rational.\<close>

definition ilog10 :: "rat \<Rightarrow> int" where
  "ilog10 x = (if 1 \<le> x then declen \<lfloor>x\<rfloor> - 1 else - declen (\<lceil>1 / x\<rceil> - 1))"

text \<open>
  \<open>shortest_digits fuel x e10 k\<close> tries \<open>k\<close>, \<open>k + 1\<close>, ... significant digits and returns
  \<open>(n, ex)\<close> for the decimal \<open>n * 10\<^sup>e\<^sup>x\<close>; seventeen digits always read back.
\<close>

fun shortest_digits :: "nat \<Rightarrow> rat \<Rightarrow> int \<Rightarrow> int \<Rightarrow> int \<times> int" where
  "shortest_digits 0 x e10 k = (round_half_even (x / pow10 (e10 - k + 1)), e10 - k + 1)"
| "shortest_digits (Suc fuel) x e10 k =
     (let ex = e10 - k + 1; u = pow10 ex; lo = \<lfloor>x / u\<rfloor>; hi = lo + 1;
          dlo = x - of_int lo * u; dhi = of_int hi * u - x;
          lo_ok = (double_of_rat (of_int lo * u) = Finite x);
          hi_ok = (double_of_rat (of_int hi * u) = Finite x)
      in if lo_ok \<and> hi_ok then
           (if dlo < dhi then lo else if dhi < dlo then hi else if even lo then lo else hi, ex)
         else if lo_ok then (lo, ex)
         else if hi_ok then (hi, ex)
         else shortest_digits fuel x e10 (k + 1))"

function strip_zeros :: "int \<times> int \<Rightarrow> int \<times> int" where
  "strip_zeros (n, ex) =
     (if 0 < n \<and> n mod 10 = 0 then strip_zeros (n div 10, ex + 1) else (n, ex))"
  by pat_completeness auto
termination
  by (relation "measure (\<lambda>(n, ex). nat n)") auto

declare strip_zeros.simps [simp del]

definition repr_layout :: "string \<Rightarrow> int \<Rightarrow> string" where
  "repr_layout ds decpt =
     (if decpt \<le> - 4 \<or> 16 < decpt then
        take 1 ds @ (if drop 1 ds = [] then [] else ''.'' @ drop 1 ds) @ ''e'' @
        (if decpt - 1 < 0 then ''-'' else ''+'') @
        (if \<bar>decpt - 1\<bar> < 10 then ''0'' else []) @ dec \<bar>decpt - 1\<bar>
      else if decpt \<le> 0 then ''0.'' @ replicate (nat (- decpt)) CHR ''0'' @ ds
      else if int (length ds) \<le> decpt then
        ds @ replicate (nat (decpt - int (length ds))) CHR ''0'' @ ''.0''
      else take (nat decpt) ds @ ''.'' @ drop (nat decpt) ds)"

definition repr_pos :: "rat \<Rightarrow> string" where
  "repr_pos x = (case strip_zeros (shortest_digits 16 x (ilog10 x) 1) of
     (n, ex) \<Rightarrow> repr_layout (dec n) (int (length (dec n)) + ex))"

fun float_repr :: "pyfloat \<Rightarrow> string" where
  "float_repr (Finite r) =
     (if r = 0 then ''0.0'' else (if r < 0 then ''-'' else []) @ repr_pos \<bar>r\<bar>)"
| "float_repr NegZero = ''-0.0''"
| "float_repr PosInf = ''inf''"
| "float_repr NegInf = ''-inf''"
| "float_repr NaN = ''nan''"

text \<open>
  \<^verbatim>\<open>f"{v}"\<close> is \<^verbatim>\<open>str(v)\<close>. The program formats a value this way only after comparing it
  with an \<^verbatim>\<open>int\<close>, so only numbers are formatted (lemma \<open>py_cmp_number\<close> below); the
  \<^verbatim>\<open>repr\<close> of a \<^verbatim>\<open>list\<close> or a \<^verbatim>\<open>dict\<close> is not modelled and stands as the empty string.
  (The limit of 4300 digits that CPython 3.11 puts on \<^verbatim>\<open>str(int)\<close> is an interpreter
  setting and is not modelled either.)
\<close>

fun py_str :: "pyval \<Rightarrow> string" where
  "py_str PNone = ''None''"
| "py_str (PBool b) = (if b then ''True'' else ''False'')"
| "py_str (PInt n) = (if n < 0 then ''-'' else []) @ dec \<bar>n\<bar>"
| "py_str (PFloat x) = float_repr x"
| "py_str (PStr s) = s"
| "py_str _ = []"

subsection \<open>Attribute access and indexing\<close>

text \<open>\<^verbatim>\<open>d.get(key, default)\<close> on a \<^verbatim>\<open>dict\<close>.\<close>

definition dict_get :: "(string \<times> pyval) list \<Rightarrow> string \<Rightarrow> pyval \<Rightarrow> pyval" where
  "dict_get d key dflt = (case map_of d key of None \<Rightarrow> dflt | Some v \<Rightarrow> v)"

text \<open>\<^verbatim>\<open>v.get(key, default)\<close> on any value: only a \<^verbatim>\<open>dict\<close> has the method.\<close>

fun py_get :: "pyval \<Rightarrow> string \<Rightarrow> pyval \<Rightarrow> pyerr + pyval" where
  "py_get (PDict d) key dflt = Inr (dict_get d key dflt)"
| "py_get _ key dflt = Inl AttributeError"

text \<open>The number of bytes of the UTF-8 sequence that starts with the byte \<open>c\<close>.\<close>

definition utf8_len :: "char \<Rightarrow> nat" where
  "utf8_len c = (if (of_char c :: nat) < 0x80 then 1 else if (of_char c :: nat) < 0xE0 then 2
     else if (of_char c :: nat) < 0xF0 then 3 else 4)"

text \<open>
  \<^verbatim>\<open>v[0]\<close>: the first element of a \<^verbatim>\<open>list\<close> or the first character of a \<^verbatim>\<open>str\<close>
  (\<^verbatim>\<open>IndexError\<close> when empty); a \<^verbatim>\<open>dict\<close> of string keys has no key \<^verbatim>\<open>0\<close>
  (\<^verbatim>\<open>KeyError\<close>); nothing else is subscriptable (\<^verbatim>\<open>TypeError\<close>).
\<close>

fun py_index0 :: "pyval \<Rightarrow> pyerr + pyval" where
  "py_index0 (PList []) = Inl IndexError"
| "py_index0 (PList (x # xs)) = Inr x"
| "py_index0 (PStr []) = Inl IndexError"
| "py_index0 (PStr (c # cs)) = Inr (PStr (take (utf8_len c) (c # cs)))"
| "py_index0 (PDict d) = Inl KeyError"
| "py_index0 _ = Inl TypeError"

section \<open>The alert records\<close>

text \<open>
  An alert is a \<^verbatim>\<open>dict\<close> with the same eight string-valued keys in every branch of the
  function. Each literal of the source is one definition below, named after its message; the
  \<^verbatim>\<open>description\<close> built by an f-string is its parameter (for the snow alert, the
  \<^verbatim>\<open>severity\<close>, the only other field that is not a literal).
\<close>

record alert =
  type :: string
  severity :: string
  message :: string
  description :: string
  recommendation :: string
  icon :: string
  color :: string
  bg_color :: string

definition extreme_heat_warning :: "string \<Rightarrow> alert" where
  "extreme_heat_warning desc =
    \<lparr>type = ''temperature'',
     severity = ''high'',
     message = [CHR 0xF0, CHR 0x9F, CHR 0x8C, CHR 0xA1, CHR 0xEF, CHR 0xB8, CHR 0x8F] @ '' Extreme Heat Warning'',
     description = desc,
     recommendation = ''Stay hydrated, avoid direct sun, and wear lightweight clothing'',
     icon = ''WARNING_AMBER'',
     color = ''RED_700'',
     bg_color = ''RED_50''\<rparr>"

definition high_temperature :: "string \<Rightarrow> alert" where
  "high_temperature desc =
    \<lparr>type = ''temperature'',
     severity = ''moderate'',
     message = [CHR 0xE2, CHR 0x98, CHR 0x80, CHR 0xEF, CHR 0xB8, CHR 0x8F] @ '' High Temperature'',
     description = desc,
     recommendation = ''Wear sunscreen and stay hydrated'',
     icon = ''WB_SUNNY'',
     color = ''ORANGE_700'',
     bg_color = ''ORANGE_50''\<rparr>"

definition extreme_cold_warning :: "string \<Rightarrow> alert" where
  "extreme_cold_warning desc =
    \<lparr>type = ''temperature'',
     severity = ''high'',
     message = [CHR 0xF0, CHR 0x9F, CHR 0xA5, CHR 0xB6] @ '' Extreme Cold Warning'',
     description = desc,
     recommendation = ''Wear multiple layers, cover exposed skin, and limit outdoor time'',
     icon = ''AC_UNIT'',
     color = ''BLUE_700'',
     bg_color = ''BLUE_50''\<rparr>"

definition freezing_temperature :: "string \<Rightarrow> alert" where
  "freezing_temperature desc =
    \<lparr>type = ''temperature'',
     severity = ''moderate'',
     message = [CHR 0xE2, CHR 0x9D, CHR 0x84, CHR 0xEF, CHR 0xB8, CHR 0x8F] @ '' Freezing Temperature'',
     description = desc,
     recommendation = ''Wear warm clothing and watch for ice on roads'',
     icon = ''AC_UNIT'',
     color = ''CYAN_700'',
     bg_color = ''CYAN_50''\<rparr>"

definition dangerous_heat_index :: "string \<Rightarrow> alert" where
  "dangerous_heat_index desc =
    \<lparr>type = ''feels_like'',
     severity = ''high'',
     message = [CHR 0xF0, CHR 0x9F, CHR 0x94, CHR 0xA5] @ '' Dangerous Heat Index'',
     description = desc,
     recommendation = ''Avoid strenuous activity, seek air conditioning, drink plenty of water'',
     icon = ''LOCAL_FIRE_DEPARTMENT'',
     color = ''DEEP_ORANGE_700'',
     bg_color = ''DEEP_ORANGE_50''\<rparr>"

definition extreme_wind_chill :: "string \<Rightarrow> alert" where
  "extreme_wind_chill desc =
    \<lparr>type = ''feels_like'',
     severity = ''high'',
     message = [CHR 0xF0, CHR 0x9F, CHR 0x92, CHR 0xA8] @ '' Extreme Wind Chill'',
     description = desc,
     recommendation = ''Limit time outdoors, cover all exposed skin, frostbite risk is high'',
     icon = ''AIR'',
     color = ''INDIGO_700'',
     bg_color = ''INDIGO_50''\<rparr>"

definition very_high_humidity :: "string \<Rightarrow> alert" where
  "very_high_humidity desc =
    \<lparr>type = ''humidity'',
     severity = ''moderate'',
     message = [CHR 0xF0, CHR 0x9F, CHR 0x92, CHR 0xA6] @ '' Very High Humidity'',
     description = desc,
     recommendation = ''Stay hydrated and avoid strenuous activity'',
     icon = ''WATER_DROP'',
     color = ''TEAL_700'',
     bg_color = ''TEAL_50''\<rparr>"

definition low_humidity :: "string \<Rightarrow> alert" where
  "low_humidity desc =
    \<lparr>type = ''humidity'',
     severity = ''moderate'',
     message = [CHR 0xF0, CHR 0x9F, CHR 0x8F, CHR 0x9C, CHR 0xEF, CHR 0xB8, CHR 0x8F] @ '' Low Humidity'',
     description = desc,
     recommendation = ''Use moisturizer and stay hydrated'',
     icon = ''WATER_DROP'',
     color = ''AMBER_700'',
     bg_color = ''AMBER_50''\<rparr>"

definition high_wind_warning :: "string \<Rightarrow> alert" where
  "high_wind_warning desc =
    \<lparr>type = ''wind'',
     severity = ''high'',
     message = [CHR 0xF0, CHR 0x9F, CHR 0x92, CHR 0xA8] @ '' High Wind Warning'',
     description = desc,
     recommendation = ''Secure loose objects, avoid outdoor activities'',
     icon = ''AIR'',
     color = ''PURPLE_700'',
     bg_color = ''PURPLE_50''\<rparr>"

definition windy_conditions :: "string \<Rightarrow> alert" where
  "windy_conditions desc =
    \<lparr>type = ''wind'',
     severity = ''moderate'',
     message = [CHR 0xF0, CHR 0x9F, CHR 0x8C, CHR 0xAC, CHR 0xEF, CHR 0xB8, CHR 0x8F] @ '' Windy Conditions'',
     description = desc,
     recommendation = ''Hold onto hats and lightweight items'',
     icon = ''AIR'',
     color = ''BLUE_GREY_700'',
     bg_color = ''BLUE_GREY_50''\<rparr>"

definition thunderstorm_alert :: "alert" where
  "thunderstorm_alert =
    \<lparr>type = ''storm'',
     severity = ''high'',
     message = [CHR 0xE2, CHR 0x9B, CHR 0x88, CHR 0xEF, CHR 0xB8, CHR 0x8F] @ '' Thunderstorm Alert'',
     description = ''Thunderstorm in the area'',
     recommendation = ''Seek indoor shelter, avoid open areas and tall objects'',
     icon = ''FLASH_ON'',
     color = ''DEEP_PURPLE_700'',
     bg_color = ''DEEP_PURPLE_50''\<rparr>"

definition heavy_rain :: "alert" where
  "heavy_rain =
    \<lparr>type = ''rain'',
     severity = ''moderate'',
     message = [CHR 0xF0, CHR 0x9F, CHR 0x8C, CHR 0xA7, CHR 0xEF, CHR 0xB8, CHR 0x8F] @ '' Heavy Rain'',
     description = ''Heavy rainfall expected'',
     recommendation = ''Bring an umbrella, use caution when driving'',
     icon = ''BEACH_ACCESS'',
     color = ''BLUE_700'',
     bg_color = ''BLUE_50''\<rparr>"

definition snow_alert :: "string \<Rightarrow> alert" where
  "snow_alert sev =
    \<lparr>type = ''snow'',
     severity = sev,
     message = [CHR 0xE2, CHR 0x9D, CHR 0x84, CHR 0xEF, CHR 0xB8, CHR 0x8F] @ '' Snow Alert'',
     description = ''Snowfall expected'',
     recommendation = ''Allow extra travel time, drive cautiously'',
     icon = ''AC_UNIT'',
     color = ''LIGHT_BLUE_700'',
     bg_color = ''LIGHT_BLUE_50''\<rparr>"

definition reduced_visibility :: "alert" where
  "reduced_visibility =
    \<lparr>type = ''fog'',
     severity = ''moderate'',
     message = [CHR 0xF0, CHR 0x9F, CHR 0x8C, CHR 0xAB, CHR 0xEF, CHR 0xB8, CHR 0x8F] @ '' Reduced Visibility'',
     description = ''Fog or mist reducing visibility'',
     recommendation = ''Use low beam headlights, drive slowly'',
     icon = ''FOGGY'',
     color = ''GREY_700'',
     bg_color = ''GREY_50''\<rparr>"

section \<open>\<^verbatim>\<open>WeatherService.analyze_extreme_conditions\<close>\<close>

text \<open>
  The function appends to the list \<^verbatim>\<open>alerts\<close> in five \<^verbatim>\<open>if\<close>/\<^verbatim>\<open>elif\<close> chains, one after the
  other. Each chain is a function from the list so far to the list after it; an exception
  raised by a comparison or by an f-string ends the call.
\<close>

definition degree_sign :: string where
  "degree_sign = [CHR 0xC2, CHR 0xB0]"

text \<open>The literal \<^verbatim>\<open>2.237\<close>: the double nearest to it.\<close>

definition float_2_237 :: pyfloat where
  "float_2_237 = Finite (1259319045803475 / 562949953421312)"

text \<open>Lines 84 to 127: \<^verbatim>\<open># Temperature alerts\<close>.\<close>

definition temperature_alerts ::
  "string \<Rightarrow> pyval \<Rightarrow> pyval \<Rightarrow> alert list \<Rightarrow> pyerr + alert list" where
  "temperature_alerts unit temp temp_c alerts =
     and_then (py_ge temp_c 35) (\<lambda>c1.
     if c1 then
       and_then (py_format_1f temp) (\<lambda>s. Inr (alerts @ [extreme_heat_warning
         (''Temperature is '' @ s @ degree_sign @ (if unit = ''imperial'' then ''F'' else ''C''))]))
     else and_then (py_ge temp_c 30) (\<lambda>c2.
     if c2 then
       and_then (py_format_1f temp) (\<lambda>s. Inr (alerts @ [high_temperature
         (''Temperature is '' @ s @ degree_sign @ (if unit = ''imperial'' then ''F'' else ''C''))]))
     else and_then (py_le temp_c (- 10)) (\<lambda>c3.
     if c3 then
       and_then (py_format_1f temp) (\<lambda>s. Inr (alerts @ [extreme_cold_warning
         (''Temperature is '' @ s @ degree_sign @ (if unit = ''imperial'' then ''F'' else ''C''))]))
     else and_then (py_le temp_c 0) (\<lambda>c4.
     if c4 then
       and_then (py_format_1f temp) (\<lambda>s. Inr (alerts @ [freezing_temperature
         (''Temperature is '' @ s @ degree_sign @ (if unit = ''imperial'' then ''F'' else ''C''))]))
     else Inr alerts))))"

text \<open>Lines 130 to 151: \<^verbatim>\<open># Feels-like temperature alerts (wind chill/heat index)\<close>.\<close>

definition feels_like_alerts ::
  "string \<Rightarrow> pyval \<Rightarrow> pyval \<Rightarrow> alert list \<Rightarrow> pyerr + alert list" where
  "feels_like_alerts unit feels_like feels_like_c alerts =
     and_then (py_ge feels_like_c 40) (\<lambda>c1.
     if c1 then
       and_then (py_format_1f feels_like) (\<lambda>s. Inr (alerts @ [dangerous_heat_index
         (''Feels like '' @ s @ degree_sign @ (if unit = ''imperial'' then ''F'' else ''C''))]))
     else and_then (py_le feels_like_c (- 20)) (\<lambda>c2.
     if c2 then
       and_then (py_format_1f feels_like) (\<lambda>s. Inr (alerts @ [extreme_wind_chill
         (''Feels like '' @ s @ degree_sign @ (if unit = ''imperial'' then ''F'' else ''C''))]))
     else Inr alerts))"

text \<open>Lines 154 to 175: \<^verbatim>\<open># Humidity alerts\<close>.\<close>

definition humidity_alerts :: "pyval \<Rightarrow> alert list \<Rightarrow> pyerr + alert list" where
  "humidity_alerts humidity alerts =
     and_then (py_ge humidity 90) (\<lambda>c1.
     if c1 then Inr (alerts @ [very_high_humidity (''Humidity is '' @ py_str humidity @ ''%'')])
     else and_then (py_le humidity 20) (\<lambda>c2.
     if c2 then Inr (alerts @ [low_humidity (''Humidity is '' @ py_str humidity @ ''%'')])
     else Inr alerts))"

text \<open>
  Lines 178 to 200: \<^verbatim>\<open># Wind speed alerts (m/s)\<close>. The speed is divided by \<^verbatim>\<open>2.237\<close>
  for every unit other than \<^verbatim>\<open>"metric"\<close>.
\<close>

definition wind_alerts :: "string \<Rightarrow> pyval \<Rightarrow> alert list \<Rightarrow> pyerr + alert list" where
  "wind_alerts unit wind_speed alerts =
     and_then (if unit = ''metric'' then Inr wind_speed
               else py_truediv wind_speed (PFloat float_2_237)) (\<lambda>wind_mps.
     and_then (py_ge wind_mps 20) (\<lambda>c1.
     if c1 then
       and_then (py_format_1f wind_speed) (\<lambda>s. Inr (alerts @ [high_wind_warning
         (''Wind speed is '' @ s @ '' '' @ (if unit = ''imperial'' then ''mph'' else ''m/s''))]))
     else and_then (py_ge wind_mps 10) (\<lambda>c2.
     if c2 then
       and_then (py_format_1f wind_speed) (\<lambda>s. Inr (alerts @ [windy_conditions
         (''Wind speed is '' @ s @ '' '' @ (if unit = ''imperial'' then ''mph'' else ''m/s''))]))
     else Inr alerts)))"

text \<open>
  Lines 204 to 253: \<^verbatim>\<open># Weather condition alerts based on OpenWeatherMap IDs\<close>, one chain:
  thunderstorm, heavy rain, snow, fog.
\<close>

definition condition_alerts :: "pyval \<Rightarrow> alert list \<Rightarrow> pyerr + alert list" where
  "condition_alerts weather_id alerts =
     and_then (py_between 200 weather_id 300) (\<lambda>c1.
     if c1 then Inr (alerts @ [thunderstorm_alert])
     else and_then (py_between 500 weather_id 600) (\<lambda>c2.
     if c2 \<and> \<not> py_in weather_id [500, 501] then Inr (alerts @ [heavy_rain])
     else and_then (py_between 600 weather_id 700) (\<lambda>c3.
     if c3 then
       and_then (py_lt weather_id 602) (\<lambda>m.
         Inr (alerts @ [snow_alert (if m then ''moderate'' else ''high'')]))
     else and_then (py_between 700 weather_id 800) (\<lambda>c4.
     if c4 then Inr (alerts @ [reduced_visibility])
     else Inr alerts))))"

text \<open>
  Lines 68 to 81 and the whole: the five fields are read with \<^verbatim>\<open>dict.get\<close> and defaults,
  the two temperatures are converted by \<^verbatim>\<open>(value - 32) * 5/9\<close> when the unit is
  \<^verbatim>\<open>"imperial"\<close>, and the five chains run in the order of the source.
\<close>

definition analyze_extreme_conditions ::
  "(string \<times> pyval) list \<Rightarrow> string \<Rightarrow> pyerr + alert list" where
  "analyze_extreme_conditions data unit =
     and_then (py_get (dict_get data ''main'' (PDict [])) ''temp'' (PInt 0)) (\<lambda>temp.
     and_then (py_get (dict_get data ''main'' (PDict [])) ''feels_like'' (PInt 0)) (\<lambda>feels_like.
     and_then (py_get (dict_get data ''main'' (PDict [])) ''humidity'' (PInt 0)) (\<lambda>humidity.
     and_then (py_get (dict_get data ''wind'' (PDict [])) ''speed'' (PInt 0)) (\<lambda>wind_speed.
     and_then (py_index0 (dict_get data ''weather'' (PList [PDict []]))) (\<lambda>weather0.
     and_then (py_get weather0 ''id'' (PInt 800)) (\<lambda>weather_id.
     and_then
       (if unit = ''imperial'' then
          and_then (py_sub temp (PInt 32)) (\<lambda>t1.
          and_then (py_mul t1 (PInt 5)) (\<lambda>t2.
          and_then (py_truediv t2 (PInt 9)) (\<lambda>temp_c.
          and_then (py_sub feels_like (PInt 32)) (\<lambda>f1.
          and_then (py_mul f1 (PInt 5)) (\<lambda>f2.
          and_then (py_truediv f2 (PInt 9)) (\<lambda>feels_like_c.
          Inr (temp_c, feels_like_c)))))))
        else Inr (temp, feels_like)) (\<lambda>(temp_c, feels_like_c).
     and_then (temperature_alerts unit temp temp_c []) (\<lambda>alerts1.
     and_then (feels_like_alerts unit feels_like feels_like_c alerts1) (\<lambda>alerts2.
     and_then (humidity_alerts humidity alerts2) (\<lambda>alerts3.
     and_then (wind_alerts unit wind_speed alerts3) (\<lambda>alerts4.
     condition_alerts weather_id alerts4)))))))))))"

text \<open>
  Lines 249 to 251 of \<^verbatim>\<open>main.py\<close>, \<^verbatim>\<open>display_alerts\<close>: the caller sorts the list it
  was given by severity, \<^verbatim>\<open>high\<close> first, with Python's stable sort.
\<close>

definition severity_order :: "alert \<Rightarrow> nat" where
  "severity_order x =
     (if severity x = ''high'' then 0 else if severity x = ''moderate'' then 1 else 2)"

definition display_sort :: "alert list \<Rightarrow> alert list" where
  "display_sort alerts = sort_key severity_order alerts"

section \<open>Observations and projections used in the statements\<close>

text \<open>
  The decoded JSON of an OpenWeatherMap response with all five fields present:
  \<^verbatim>\<open>{"main": {"temp": .., "feels_like": .., "humidity": ..}, "wind": {"speed": ..},
  "weather": [{"id": ..}]}\<close>.
\<close>

definition observation ::
  "pyval \<Rightarrow> pyval \<Rightarrow> pyval \<Rightarrow> pyval \<Rightarrow> pyval \<Rightarrow> (string \<times> pyval) list" where
  "observation temp feels_like humidity speed weather_id =
     [(''main'', PDict [(''temp'', temp), (''feels_like'', feels_like), (''humidity'', humidity)]),
      (''wind'', PDict [(''speed'', speed)]),
      (''weather'', PList [PDict [(''id'', weather_id)]])]"

text \<open>The \<^verbatim>\<open>type\<close> and \<^verbatim>\<open>severity\<close> of every alert of a result, in order.\<close>

definition category_severity :: "pyerr + alert list \<Rightarrow> pyerr + (string \<times> string) list" where
  "category_severity r =
     (case r of Inl e \<Rightarrow> Inl e | Inr alerts \<Rightarrow> Inr (map (\<lambda>a. (type a, severity a)) alerts))"

text \<open>The doubles nearest to \<^verbatim>\<open>34.9\<close>, \<^verbatim>\<open>29.9\<close> and \<^verbatim>\<open>44.74\<close>.\<close>

definition float_34_9 :: pyfloat where
  "float_34_9 = Finite (4911738343600947 / 140737488355328)"

definition float_29_9 :: pyfloat where
  "float_29_9 = Finite (4208050901824307 / 140737488355328)"

definition float_44_74 :: pyfloat where
  "float_44_74 = Finite (6296595229017375 / 140737488355328)"

text \<open>
  The records each chain can append, for a formatted value \<open>s\<close>: the literals of the source
  with the description its f-string builds.
\<close>

definition temperature_records :: "string \<Rightarrow> string \<Rightarrow> alert list" where
  "temperature_records unit s =
     map (\<lambda>f. f (''Temperature is '' @ s @ degree_sign @ (if unit = ''imperial'' then ''F'' else ''C'')))
       [extreme_heat_warning, high_temperature, extreme_cold_warning, freezing_temperature]"

definition feels_like_records :: "string \<Rightarrow> string \<Rightarrow> alert list" where
  "feels_like_records unit s =
     map (\<lambda>f. f (''Feels like '' @ s @ degree_sign @ (if unit = ''imperial'' then ''F'' else ''C'')))
       [dangerous_heat_index, extreme_wind_chill]"

definition humidity_records :: "pyval \<Rightarrow> alert list" where
  "humidity_records humidity =
     map (\<lambda>f. f (''Humidity is '' @ py_str humidity @ ''%'')) [very_high_humidity, low_humidity]"

definition wind_records :: "string \<Rightarrow> string \<Rightarrow> alert list" where
  "wind_records unit s =
     map (\<lambda>f. f (''Wind speed is '' @ s @ '' '' @ (if unit = ''imperial'' then ''mph'' else ''m/s'')))
       [high_wind_warning, windy_conditions]"

definition condition_records :: "alert list" where
  "condition_records =
     [thunderstorm_alert, heavy_rain, snow_alert ''moderate'', snow_alert ''high'',
      reduced_visibility]"

text \<open>
  The five groups in the order of the source: temperature, feels-like, humidity, wind, and
  the weather condition (storm, rain, snow, fog).
\<close>

definition group_rank :: "alert \<Rightarrow> nat" where
  "group_rank a =
     (if type a = ''temperature'' then 0 else if type a = ''feels_like'' then 1
      else if type a = ''humidity'' then 2 else if type a = ''wind'' then 3 else 4)"

definition part_of :: "nat \<Rightarrow> alert list \<Rightarrow> bool" where
  "part_of k p = (p = [] \<or> (\<exists>r. p = [r] \<and> group_rank r = k \<and>
     type r \<in> set [''temperature'', ''feels_like'', ''humidity'', ''wind'', ''storm'', ''rain'',
       ''snow'', ''fog'']))"

text \<open>
  A run in imperial units used to instantiate the general theorems: 95 degrees Fahrenheit,
  44.74 mph and a thunderstorm.
\<close>

definition sample_observation :: "(string \<times> pyval) list" where
  "sample_observation = observation (PInt 95) (PInt 68) (PInt 50) (PFloat float_44_74) (PInt 202)"

definition sample_alerts :: "alert list" where
  "sample_alerts =
     [extreme_heat_warning (''Temperature is 95.0'' @ degree_sign @ ''F''),
      high_wind_warning ''Wind speed is 44.7 mph'', thunderstorm_alert]"

text \<open>
  The double nearest to \<^verbatim>\<open>44.7\<close>, the speed \<^verbatim>\<open>44.74\<close> rounded to one decimal.
\<close>

definition float_44_7 :: pyfloat where
  "float_44_7 = Finite (3145482864741581 / 70368744177664)"

text \<open>
  Well-formed input. A value is a small number when it is a \<^verbatim>\<open>bool\<close>, a \<^verbatim>\<open>float\<close>, or an
  \<^verbatim>\<open>int\<close> that converts to \<^verbatim>\<open>float\<close> (of magnitude below \<open>2 ^ 1024 - 2 ^ 970\<close>).
\<close>

definition small_number :: "pyval \<Rightarrow> bool" where
  "small_number v = (case v of PBool b \<Rightarrow> True | PInt n \<Rightarrow> \<bar>of_int n\<bar> < float_overflow
     | PFloat x \<Rightarrow> True | _ \<Rightarrow> False)"

text \<open>The entry \<open>key\<close> of the dictionary is absent or is a dictionary.\<close>

definition dict_entry :: "(string \<times> pyval) list \<Rightarrow> string \<Rightarrow> bool" where
  "dict_entry data key = (case map_of data key of None \<Rightarrow> True | Some (PDict d) \<Rightarrow> True
     | Some _ \<Rightarrow> False)"

text \<open>
  The entry \<^verbatim>\<open>"weather"\<close> is absent or is a list whose first element is a dictionary.
\<close>

definition weather_entry :: "(string \<times> pyval) list \<Rightarrow> bool" where
  "weather_entry data = (case map_of data ''weather'' of None \<Rightarrow> True
     | Some (PList (PDict d # rest)) \<Rightarrow> True | Some _ \<Rightarrow> False)"

text \<open>
  The field \<open>key\<close> of the entry \<open>entry\<close>, and \<open>dflt\<close> when the entry or the field is absent;
  the \<^verbatim>\<open>"id"\<close> of the first element of \<^verbatim>\<open>"weather"\<close>, and 800 when absent.
\<close>

definition field_or :: "(string \<times> pyval) list \<Rightarrow> string \<Rightarrow> string \<Rightarrow> pyval \<Rightarrow> pyval" where
  "field_or data entry key dflt = (case map_of data entry of Some (PDict d) \<Rightarrow> dict_get d key dflt
     | _ \<Rightarrow> dflt)"

definition first_weather_id :: "(string \<times> pyval) list \<Rightarrow> pyval" where
  "first_weather_id data = (case map_of data ''weather'' of
       Some (PList (PDict d # rest)) \<Rightarrow> dict_get d ''id'' (PInt 800)
     | _ \<Rightarrow> PInt 800)"

definition well_formed :: "(string \<times> pyval) list \<Rightarrow> bool" where
  "well_formed data = (dict_entry data ''main'' \<and> dict_entry data ''wind'' \<and> weather_entry data
     \<and> small_number (field_or data ''main'' ''temp'' (PInt 0))
     \<and> small_number (field_or data ''main'' ''feels_like'' (PInt 0))
     \<and> small_number (field_or data ''main'' ''humidity'' (PInt 0))
     \<and> small_number (field_or data ''wind'' ''speed'' (PInt 0))
     \<and> as_num (first_weather_id data) \<noteq> None)"

text \<open>
  Selection by priority. A group is an ordered list of rules, each a condition with its
  record; the group contributes the record of the first rule whose condition holds, and
  nothing when none holds. A condition holds when its comparison evaluates to \<^verbatim>\<open>True\<close>.
\<close>

fun first_match :: "(bool \<times> 'a) list \<Rightarrow> 'a list" where
  "first_match [] = []"
| "first_match ((c, r) # rest) = (if c then [r] else first_match rest)"

definition holds :: "pyerr + bool \<Rightarrow> bool" where
  "holds r = (r = Inr True)"

text \<open>
  Lines 76 to 81 and line 179: the value the thresholds are compared with,
  \<^verbatim>\<open>(value - 32) * 5/9\<close> for a temperature when the unit is \<^verbatim>\<open>"imperial"\<close> and
  \<^verbatim>\<open>wind_speed / 2.237\<close> for the speed when the unit is not \<^verbatim>\<open>"metric"\<close>.
\<close>

definition to_celsius :: "string \<Rightarrow> pyval \<Rightarrow> pyerr + pyval" where
  "to_celsius unit v =
     (if unit = ''imperial'' then
        and_then (py_sub v (PInt 32)) (\<lambda>v1. and_then (py_mul v1 (PInt 5)) (\<lambda>v2.
          py_truediv v2 (PInt 9)))
      else Inr v)"

definition to_mps :: "string \<Rightarrow> pyval \<Rightarrow> pyerr + pyval" where
  "to_mps unit v = (if unit = ''metric'' then Inr v else py_truediv v (PFloat float_2_237))"

text \<open>
  The rule lists of the five groups, in the order in which the conditions are listed:
  extreme heat, high temperature, extreme cold, freezing; dangerous heat index, extreme wind
  chill; very high humidity, low humidity; high wind, windy; thunderstorm, heavy rain, snow,
  reduced visibility.
\<close>

definition temperature_priority :: "string \<Rightarrow> pyval \<Rightarrow> string \<Rightarrow> alert list" where
  "temperature_priority unit temp_c s = first_match (zip
     [holds (py_ge temp_c 35), holds (py_ge temp_c 30), holds (py_le temp_c (- 10)),
      holds (py_le temp_c 0)]
     (temperature_records unit s))"

definition feels_like_priority :: "string \<Rightarrow> pyval \<Rightarrow> string \<Rightarrow> alert list" where
  "feels_like_priority unit feels_like_c s = first_match (zip
     [holds (py_ge feels_like_c 40), holds (py_le feels_like_c (- 20))]
     (feels_like_records unit s))"

definition humidity_priority :: "pyval \<Rightarrow> alert list" where
  "humidity_priority humidity = first_match (zip
     [holds (py_ge humidity 90), holds (py_le humidity 20)]
     (humidity_records humidity))"

definition wind_priority :: "string \<Rightarrow> pyval \<Rightarrow> string \<Rightarrow> alert list" where
  "wind_priority unit wind_mps s = first_match (zip
     [holds (py_ge wind_mps 20), holds (py_ge wind_mps 10)]
     (wind_records unit s))"

definition condition_priority :: "pyval \<Rightarrow> alert list" where
  "condition_priority weather_id = first_match
     [(holds (py_between 200 weather_id 300), thunderstorm_alert),
      (holds (py_between 500 weather_id 600) \<and> \<not> py_in weather_id [500, 501], heavy_rain),
      (holds (py_between 600 weather_id 700),
         snow_alert (if holds (py_lt weather_id 602) then ''moderate'' else ''high'')),
      (holds (py_between 700 weather_id 800), reduced_visibility)]"

section \<open>Evaluation\<close>

lemmas chain_defs =
  temperature_alerts_def feels_like_alerts_def humidity_alerts_def wind_alerts_def
  condition_alerts_def

lemmas cmp_defs =
  py_ge_def py_le_def py_lt_def py_int_le_def py_between_def py_cmp_def rat_cmp_def
  py_in_def py_eq_int_def

lemmas eval_defs =
  analyze_extreme_conditions_def chain_defs cmp_defs and_then_def dict_get_def
  float_of_int_def float_overflow_def observation_def category_severity_def

lemmas alert_defs =
  extreme_heat_warning_def high_temperature_def extreme_cold_warning_def
  freezing_temperature_def dangerous_heat_index_def extreme_wind_chill_def
  very_high_humidity_def low_humidity_def high_wind_warning_def windy_conditions_def
  thunderstorm_alert_def heavy_rain_def snow_alert_def reduced_visibility_def

lemma floor_rat_numeral: "\<lfloor>(numeral a :: rat) / numeral b\<rfloor> = numeral a div numeral b"
  by (metis floor_divide_of_int_eq of_int_numeral)

lemma ceiling_rat_numeral:
  "\<lceil>(numeral a :: rat) / numeral b\<rceil> = - ((- numeral a) div numeral b)"
  by (metis ceiling_def floor_divide_of_int_eq minus_divide_left of_int_minus of_int_numeral)

lemmas round_defs =
  double_of_rat_def ilog2_def pow2_def round_half_even_def compute_bitlen floor_rat_numeral
  ceiling_rat_numeral

text \<open>The float constants are the doubles Python reads the literals as.\<close>

lemma float_34_9_literal: "double_of_rat (349 / 10) = float_34_9"
  by (simp add: round_defs float_34_9_def)

lemma float_29_9_literal: "double_of_rat (299 / 10) = float_29_9"
  by (simp add: round_defs float_29_9_def)

lemma float_44_74_literal: "double_of_rat (4474 / 100) = float_44_74"
  by (simp add: round_defs float_44_74_def)

lemma float_2_237_literal: "double_of_rat (2237 / 1000) = float_2_237"
  by (simp add: round_defs float_2_237_def)

lemmas arith_defs = py_sub_def py_mul_def py_truediv_def fdiv_def fmul_def fsub_def fzero_def
  finf_def float_44_74_def float_2_237_def

subsection \<open>The shape of a result\<close>

lemma temperature_alerts_shape:
  assumes "temperature_alerts unit temp temp_c alerts = Inr out"
  shows "out = alerts \<or>
    (\<exists>s r. py_format_1f temp = Inr s \<and> r \<in> set (temperature_records unit s) \<and> out = alerts @ [r])"
  using assms unfolding temperature_alerts_def and_then_def temperature_records_def
  by (auto split: sum.splits if_splits)

lemma feels_like_alerts_shape:
  assumes "feels_like_alerts unit feels_like feels_like_c alerts = Inr out"
  shows "out = alerts \<or>
    (\<exists>s r. py_format_1f feels_like = Inr s \<and> r \<in> set (feels_like_records unit s) \<and>
       out = alerts @ [r])"
  using assms unfolding feels_like_alerts_def and_then_def feels_like_records_def
  by (auto split: sum.splits if_splits)

lemma humidity_alerts_shape:
  assumes "humidity_alerts humidity alerts = Inr out"
  shows "out = alerts \<or> (\<exists>r. r \<in> set (humidity_records humidity) \<and> out = alerts @ [r])"
  using assms unfolding humidity_alerts_def and_then_def humidity_records_def
  by (auto split: sum.splits if_splits)

lemma wind_alerts_shape:
  assumes "wind_alerts unit wind_speed alerts = Inr out"
  shows "out = alerts \<or>
    (\<exists>s r. py_format_1f wind_speed = Inr s \<and> r \<in> set (wind_records unit s) \<and>
       out = alerts @ [r])"
  using assms unfolding wind_alerts_def and_then_def wind_records_def
  by (auto split: sum.splits if_splits)

lemma condition_alerts_shape:
  assumes "condition_alerts weather_id alerts = Inr out"
  shows "out = alerts \<or> (\<exists>r. r \<in> set condition_records \<and> out = alerts @ [r])"
  using assms unfolding condition_alerts_def and_then_def condition_records_def
  by (auto split: sum.splits if_splits)

lemma analyze_chains:
  assumes "analyze_extreme_conditions data unit = Inr out"
  obtains temp feels_like humidity wind_speed weather_id temp_c feels_like_c a1 a2 a3 a4 where
    "py_get (dict_get data ''main'' (PDict [])) ''temp'' (PInt 0) = Inr temp"
    "py_get (dict_get data ''main'' (PDict [])) ''feels_like'' (PInt 0) = Inr feels_like"
    "py_get (dict_get data ''main'' (PDict [])) ''humidity'' (PInt 0) = Inr humidity"
    "py_get (dict_get data ''wind'' (PDict [])) ''speed'' (PInt 0) = Inr wind_speed"
    "temperature_alerts unit temp temp_c [] = Inr a1"
    "feels_like_alerts unit feels_like feels_like_c a1 = Inr a2"
    "humidity_alerts humidity a2 = Inr a3"
    "wind_alerts unit wind_speed a3 = Inr a4"
    "condition_alerts weather_id a4 = Inr out"
  using assms unfolding analyze_extreme_conditions_def and_then_def
  by (auto split: sum.splits prod.splits)

lemma analyze_parts:
  assumes "analyze_extreme_conditions data unit = Inr out"
  obtains temp feels_like humidity wind_speed t f h w c where
    "py_get (dict_get data ''main'' (PDict [])) ''temp'' (PInt 0) = Inr temp"
    "py_get (dict_get data ''main'' (PDict [])) ''feels_like'' (PInt 0) = Inr feels_like"
    "py_get (dict_get data ''main'' (PDict [])) ''humidity'' (PInt 0) = Inr humidity"
    "py_get (dict_get data ''wind'' (PDict [])) ''speed'' (PInt 0) = Inr wind_speed"
    "out = t @ f @ h @ w @ c"
    "t = [] \<or> (\<exists>s r. py_format_1f temp = Inr s \<and> r \<in> set (temperature_records unit s) \<and> t = [r])"
    "f = [] \<or> (\<exists>s r. py_format_1f feels_like = Inr s \<and> r \<in> set (feels_like_records unit s) \<and> f = [r])"
    "h = [] \<or> (\<exists>r. r \<in> set (humidity_records humidity) \<and> h = [r])"
    "w = [] \<or> (\<exists>s r. py_format_1f wind_speed = Inr s \<and> r \<in> set (wind_records unit s) \<and> w = [r])"
    "c = [] \<or> (\<exists>r. r \<in> set condition_records \<and> c = [r])"
proof -
  from assms obtain temp feels_like humidity wind_speed weather_id temp_c feels_like_c a1 a2 a3 a4
    where rd: "py_get (dict_get data ''main'' (PDict [])) ''temp'' (PInt 0) = Inr temp"
      "py_get (dict_get data ''main'' (PDict [])) ''feels_like'' (PInt 0) = Inr feels_like"
      "py_get (dict_get data ''main'' (PDict [])) ''humidity'' (PInt 0) = Inr humidity"
      "py_get (dict_get data ''wind'' (PDict [])) ''speed'' (PInt 0) = Inr wind_speed"
    and ch: "temperature_alerts unit temp temp_c [] = Inr a1"
      "feels_like_alerts unit feels_like feels_like_c a1 = Inr a2"
      "humidity_alerts humidity a2 = Inr a3"
      "wind_alerts unit wind_speed a3 = Inr a4"
      "condition_alerts weather_id a4 = Inr out"
    by (rule analyze_chains)
  from temperature_alerts_shape [OF ch(1)]
  have t: "a1 = [] \<or> (\<exists>s r. py_format_1f temp = Inr s \<and> r \<in> set (temperature_records unit s) \<and> a1 = [r])"
    by auto
  from feels_like_alerts_shape [OF ch(2)] obtain f where f: "a2 = a1 @ f"
    "f = [] \<or> (\<exists>s r. py_format_1f feels_like = Inr s \<and> r \<in> set (feels_like_records unit s) \<and> f = [r])"
    by auto
  from humidity_alerts_shape [OF ch(3)] obtain h where h: "a3 = a2 @ h"
    "h = [] \<or> (\<exists>r. r \<in> set (humidity_records humidity) \<and> h = [r])"
    by auto
  from wind_alerts_shape [OF ch(4)] obtain w where w: "a4 = a3 @ w"
    "w = [] \<or> (\<exists>s r. py_format_1f wind_speed = Inr s \<and> r \<in> set (wind_records unit s) \<and> w = [r])"
    by auto
  from condition_alerts_shape [OF ch(5)] obtain c where c: "out = a4 @ c"
    "c = [] \<or> (\<exists>r. r \<in> set condition_records \<and> c = [r])"
    by auto
  have "out = a1 @ f @ h @ w @ c" using f(1) h(1) w(1) c(1) by simp
  then show ?thesis using that rd t f(2) h(2) w(2) c(2) by blast
qed

lemma temperature_records_rank:
  "r \<in> set (temperature_records unit s) \<Longrightarrow> part_of 0 [r]"
  by (auto simp: temperature_records_def alert_defs part_of_def group_rank_def)

lemma feels_like_records_rank:
  "r \<in> set (feels_like_records unit s) \<Longrightarrow> part_of 1 [r]"
  by (auto simp: feels_like_records_def alert_defs part_of_def group_rank_def)

lemma humidity_records_rank:
  "r \<in> set (humidity_records h) \<Longrightarrow> part_of 2 [r]"
  by (auto simp: humidity_records_def alert_defs part_of_def group_rank_def)

lemma wind_records_rank:
  "r \<in> set (wind_records unit s) \<Longrightarrow> part_of 3 [r]"
  by (auto simp: wind_records_def alert_defs part_of_def group_rank_def)

lemma condition_records_rank:
  "r \<in> set condition_records \<Longrightarrow> part_of 4 [r]"
  by (auto simp: condition_records_def alert_defs part_of_def group_rank_def)

lemma analyze_ranked_parts:
  assumes "analyze_extreme_conditions data unit = Inr out"
  obtains t f h w c where "out = t @ f @ h @ w @ c"
    "part_of 0 t" "part_of 1 f" "part_of 2 h" "part_of 3 w" "part_of 4 c"
proof -
  from assms obtain temp feels_like humidity wind_speed t f h w c where
    o: "out = t @ f @ h @ w @ c"
    and t: "t = [] \<or> (\<exists>s r. py_format_1f temp = Inr s \<and> r \<in> set (temperature_records unit s) \<and> t = [r])"
    and f: "f = [] \<or> (\<exists>s r. py_format_1f feels_like = Inr s \<and> r \<in> set (feels_like_records unit s) \<and> f = [r])"
    and h: "h = [] \<or> (\<exists>r. r \<in> set (humidity_records humidity) \<and> h = [r])"
    and w: "w = [] \<or> (\<exists>s r. py_format_1f wind_speed = Inr s \<and> r \<in> set (wind_records unit s) \<and> w = [r])"
    and c: "c = [] \<or> (\<exists>r. r \<in> set condition_records \<and> c = [r])"
    by (rule analyze_parts)
  have "part_of 0 t" using t temperature_records_rank by (auto simp: part_of_def)
  moreover have "part_of 1 f" using f feels_like_records_rank by (auto simp: part_of_def)
  moreover have "part_of 2 h" using h humidity_records_rank by (auto simp: part_of_def)
  moreover have "part_of 3 w" using w wind_records_rank by (auto simp: part_of_def)
  moreover have "part_of 4 c" using c condition_records_rank by (auto simp: part_of_def)
  ultimately show ?thesis using that o by blast
qed

lemma part_of_filter:
  "part_of k p \<Longrightarrow> j \<noteq> k \<Longrightarrow> [a\<leftarrow>p. group_rank a = j] = []"
  by (auto simp: part_of_def)

lemma part_of_length: "part_of k p \<Longrightarrow> length p \<le> 1"
  by (auto simp: part_of_def)

lemma part_of_rank: "part_of k p \<Longrightarrow> a \<in> set p \<Longrightarrow> group_rank a = k"
  by (auto simp: part_of_def)

lemma analyze_types:
  assumes "analyze_extreme_conditions data unit = Inr out" and "a \<in> set out"
  shows "type a \<in> set [''temperature'', ''feels_like'', ''humidity'', ''wind'', ''storm'', ''rain'',
       ''snow'', ''fog'']"
proof -
  from assms(1) obtain t f h w c where o: "out = t @ f @ h @ w @ c"
    and p: "part_of 0 t" "part_of 1 f" "part_of 2 h" "part_of 3 w" "part_of 4 c"
    by (rule analyze_ranked_parts)
  have "\<And>k q. part_of k q \<Longrightarrow> a \<in> set q \<Longrightarrow> ?thesis"
    unfolding part_of_def by fastforce
  then show ?thesis using assms(2) p unfolding o by auto
qed

lemma rank_at_most_one:
  assumes "analyze_extreme_conditions data unit = Inr out"
  shows "length [a\<leftarrow>out. group_rank a = g] \<le> 1 \<and> length out \<le> 5"
proof -
  from assms obtain t f h w c where o: "out = t @ f @ h @ w @ c"
    and p: "part_of 0 t" "part_of 1 f" "part_of 2 h" "part_of 3 w" "part_of 4 c"
    by (rule analyze_ranked_parts)
  have len: "length t \<le> 1" "length f \<le> 1" "length h \<le> 1" "length w \<le> 1" "length c \<le> 1"
    using p part_of_length by blast+
  have fl: "\<And>k q. part_of k q \<Longrightarrow> length [a\<leftarrow>q. group_rank a = g] \<le> (if g = k then 1 else 0)"
    using part_of_filter [of _ _ g] part_of_length
    by (metis (mono_tags, lifting) le_trans length_filter_le list.size(3) order_refl)
  have "length [a\<leftarrow>out. group_rank a = g] \<le>
     (if g = 0 then 1 else 0) + (if g = 1 then 1 else 0) + (if g = 2 then 1 else 0) +
     (if g = 3 then 1 else 0) + (if g = 4 then 1 else (0::nat))"
    unfolding o filter_append length_append
    using fl [OF p(1)] fl [OF p(2)] fl [OF p(3)] fl [OF p(4)] fl [OF p(5)]
    by linarith
  then have "length [a\<leftarrow>out. group_rank a = g] \<le> 1" by (simp split: if_splits)
  moreover have "length out \<le> 5" using len unfolding o by simp
  ultimately show ?thesis by simp
qed

lemma ranks_increase:
  assumes "analyze_extreme_conditions data unit = Inr out"
  shows "sorted_wrt (<) (map group_rank out)"
proof -
  from assms obtain t f h w c where o: "out = t @ f @ h @ w @ c"
    and p: "part_of 0 t" "part_of 1 f" "part_of 2 h" "part_of 3 w" "part_of 4 c"
    by (rule analyze_ranked_parts)
  have s: "\<And>k q. part_of k q \<Longrightarrow> sorted_wrt (<) (map group_rank q)"
    by (auto simp: part_of_def)
  show ?thesis unfolding o
    using s [OF p(1)] s [OF p(2)] s [OF p(3)] s [OF p(4)] s [OF p(5)]
      part_of_rank [OF p(1)] part_of_rank [OF p(2)] part_of_rank [OF p(3)]
      part_of_rank [OF p(4)] part_of_rank [OF p(5)]
    by (auto simp: sorted_wrt_append)
qed

lemma sample_run: "analyze_extreme_conditions sample_observation ''imperial'' = Inr sample_alerts"
  by (simp add: sample_observation_def sample_alerts_def eval_defs round_defs
    dec.simps arith_defs)

subsection \<open>Numbers stay numbers\<close>

lemma py_sub_number: "py_sub a b = Inr v \<Longrightarrow> as_num v \<noteq> None"
  by (cases "as_num a"; cases "as_num b"; cases "the (as_num a)"; cases "the (as_num b)")
     (auto simp: py_sub_def and_then_def split: sum.splits)

lemma py_cmp_number: "py_cmp v n = Inr c \<Longrightarrow> as_num v \<noteq> None"
  by (auto simp: py_cmp_def split: option.splits)

lemma small_number_num: "small_number v \<Longrightarrow> as_num v \<noteq> None"
  by (cases v) (auto simp: small_number_def)

lemma py_format_1f_total: "small_number v \<Longrightarrow> \<exists>s. py_format_1f v = Inr s"
  by (cases v) (auto simp: small_number_def float_of_int_def and_then_def)

lemma float_overflow_large: "40 \<le> float_overflow"
  by (simp add: float_overflow_def)

lemma celsius_bound:
  fixes x F :: rat
  assumes "40 \<le> F" "\<bar>x\<bar> < F"
  shows "\<not> F \<le> \<bar>(x - 32) * 5 / 9\<bar>"
proof -
  have "\<bar>(x - 32) * 5 / 9\<bar> = \<bar>x - 32\<bar> * 5 / 9" by (simp only: abs_divide abs_mult abs_numeral)
  moreover have "y * 5 / 9 < F" if "y < F + 32" for y :: rat
    using that assms(1) by linarith
  moreover have "\<bar>x - 32\<bar> < F + 32" using assms by linarith
  ultimately show ?thesis by (simp add: not_le)
qed

lemma to_celsius_total:
  assumes "small_number v"
  shows "\<exists>t1 t2 w. py_sub v (PInt 32) = Inr t1 \<and> py_mul t1 (PInt 5) = Inr t2
    \<and> py_truediv t2 (PInt 9) = Inr w \<and> as_num w \<noteq> None"
proof (cases v)
  case (PBool b)
  then show ?thesis
    by (simp add: py_sub_def py_mul_def py_truediv_def and_then_def float_overflow_def)
next
  case (PInt n)
  with assms have "\<bar>of_int n :: rat\<bar> < float_overflow" by (simp add: small_number_def)
  from celsius_bound [OF float_overflow_large this]
  have "\<not> float_overflow \<le> \<bar>(of_int n - 32) * 5 / 9 :: rat\<bar>" .
  with PInt show ?thesis
    by (simp add: py_sub_def py_mul_def py_truediv_def and_then_def)
next
  case (PFloat x)
  have "\<not> fzero (double_of_rat 9)" by (simp add: round_defs fzero_def)
  with PFloat show ?thesis
    by (simp add: py_sub_def py_mul_def py_truediv_def and_then_def float_of_int_def
      float_overflow_def)
qed (use assms in \<open>simp_all add: small_number_def\<close>)

lemma wind_mps_total:
  assumes "small_number v"
  shows "\<exists>w. py_truediv v (PFloat float_2_237) = Inr w \<and> as_num w \<noteq> None"
proof (cases v)
  case (PBool b)
  then show ?thesis
    by (simp add: py_truediv_def and_then_def float_of_int_def float_overflow_def fzero_def
      float_2_237_def)
next
  case (PInt n)
  with assms show ?thesis
    by (simp add: py_truediv_def and_then_def float_of_int_def fzero_def
      float_2_237_def small_number_def)
next
  case (PFloat x)
  then show ?thesis
    by (simp add: py_truediv_def and_then_def fzero_def float_2_237_def)
qed (use assms in \<open>simp_all add: small_number_def\<close>)

lemma temperature_alerts_total:
  assumes "as_num temp_c \<noteq> None" "small_number temp"
  shows "\<exists>out. temperature_alerts unit temp temp_c alerts = Inr out"
proof -
  from assms(1) obtain x where x: "as_num temp_c = Some x" by auto
  from py_format_1f_total [OF assms(2)] obtain s where s: "py_format_1f temp = Inr s" ..
  show ?thesis by (simp add: temperature_alerts_def cmp_defs and_then_def x s)
qed

lemma feels_like_alerts_total:
  assumes "as_num feels_like_c \<noteq> None" "small_number feels_like"
  shows "\<exists>out. feels_like_alerts unit feels_like feels_like_c alerts = Inr out"
proof -
  from assms(1) obtain x where x: "as_num feels_like_c = Some x" by auto
  from py_format_1f_total [OF assms(2)] obtain s where s: "py_format_1f feels_like = Inr s" ..
  show ?thesis by (simp add: feels_like_alerts_def cmp_defs and_then_def x s)
qed

lemma humidity_alerts_total:
  assumes "as_num humidity \<noteq> None"
  shows "\<exists>out. humidity_alerts humidity alerts = Inr out"
proof -
  from assms(1) obtain x where x: "as_num humidity = Some x" by auto
  show ?thesis by (simp add: humidity_alerts_def cmp_defs and_then_def x)
qed

lemma wind_alerts_total:
  assumes "small_number wind_speed"
  shows "\<exists>out. wind_alerts unit wind_speed alerts = Inr out"
proof -
  from py_format_1f_total [OF assms] obtain s where s: "py_format_1f wind_speed = Inr s" ..
  from wind_mps_total [OF assms] obtain w x where
    w: "py_truediv wind_speed (PFloat float_2_237) = Inr w" and x: "as_num w = Some x" by auto
  from small_number_num [OF assms] obtain y where y: "as_num wind_speed = Some y" by auto
  show ?thesis by (simp add: wind_alerts_def cmp_defs and_then_def x y w s)
qed

lemma condition_alerts_total:
  assumes "as_num weather_id \<noteq> None"
  shows "\<exists>out. condition_alerts weather_id alerts = Inr out"
proof -
  from assms(1) obtain x where x: "as_num weather_id = Some x" by auto
  show ?thesis by (simp add: condition_alerts_def cmp_defs and_then_def x)
qed

lemma read_field:
  assumes "dict_entry data entry"
  shows "py_get (dict_get data entry (PDict [])) key dflt = Inr (field_or data entry key dflt)"
  using assms
  by (auto simp: dict_entry_def field_or_def dict_get_def split: option.splits pyval.splits)

lemma read_weather_id:
  assumes "weather_entry data"
  shows "\<exists>w0. py_index0 (dict_get data ''weather'' (PList [PDict []])) = Inr w0
    \<and> py_get w0 ''id'' (PInt 800) = Inr (first_weather_id data)"
  using assms
  by (auto simp: weather_entry_def first_weather_id_def dict_get_def
    split: option.splits pyval.splits list.splits)

lemma and_then_Inr: "and_then (Inr x) f = f x"
  by (simp add: and_then_def)

lemma observation_reads:
  "py_get (dict_get (observation temp feels_like humidity wind_speed weather_id) ''main''
     (PDict [])) ''temp'' (PInt 0) = Inr temp"
  "py_get (dict_get (observation temp feels_like humidity wind_speed weather_id) ''main''
     (PDict [])) ''feels_like'' (PInt 0) = Inr feels_like"
  "py_get (dict_get (observation temp feels_like humidity wind_speed weather_id) ''main''
     (PDict [])) ''humidity'' (PInt 0) = Inr humidity"
  "py_get (dict_get (observation temp feels_like humidity wind_speed weather_id) ''wind''
     (PDict [])) ''speed'' (PInt 0) = Inr wind_speed"
  "py_index0 (dict_get (observation temp feels_like humidity wind_speed weather_id) ''weather''
     (PList [PDict []])) = Inr (PDict [(''id'', weather_id)])"
  "dict_get [(''id'', weather_id)] ''id'' (PInt 800) = weather_id"
  by (simp_all add: observation_def dict_get_def)

lemma analyze_of_reads:
  assumes "py_get (dict_get data ''main'' (PDict [])) ''temp'' (PInt 0) = Inr temp"
    and "py_get (dict_get data ''main'' (PDict [])) ''feels_like'' (PInt 0) = Inr feels_like"
    and "py_get (dict_get data ''main'' (PDict [])) ''humidity'' (PInt 0) = Inr humidity"
    and "py_get (dict_get data ''wind'' (PDict [])) ''speed'' (PInt 0) = Inr wind_speed"
    and "py_index0 (dict_get data ''weather'' (PList [PDict []])) = Inr w0"
    and "py_get w0 ''id'' (PInt 800) = Inr weather_id"
  shows "analyze_extreme_conditions data unit =
    analyze_extreme_conditions (observation temp feels_like humidity wind_speed weather_id) unit"
  unfolding analyze_extreme_conditions_def
  by (simp add: assms observation_reads and_then_Inr)

lemma analyze_observation_total:
  assumes "small_number temp" "small_number feels_like" "small_number humidity"
    "small_number wind_speed" "as_num weather_id \<noteq> None"
  shows "\<exists>out. analyze_extreme_conditions
    (observation temp feels_like humidity wind_speed weather_id) unit = Inr out"
proof -
  obtain temp_c feels_like_c where
    conv: "(if unit = ''imperial'' then
          and_then (py_sub temp (PInt 32)) (\<lambda>t1.
          and_then (py_mul t1 (PInt 5)) (\<lambda>t2.
          and_then (py_truediv t2 (PInt 9)) (\<lambda>temp_c.
          and_then (py_sub feels_like (PInt 32)) (\<lambda>f1.
          and_then (py_mul f1 (PInt 5)) (\<lambda>f2.
          and_then (py_truediv f2 (PInt 9)) (\<lambda>feels_like_c.
          Inr (temp_c, feels_like_c)))))))
        else Inr (temp, feels_like)) = Inr (temp_c, feels_like_c)"
    and n: "as_num temp_c \<noteq> None" "as_num feels_like_c \<noteq> None"
  proof (cases "unit = ''imperial''")
    case True
    from to_celsius_total [OF assms(1)] obtain t1 t2 tc where
      t: "py_sub temp (PInt 32) = Inr t1" "py_mul t1 (PInt 5) = Inr t2"
        "py_truediv t2 (PInt 9) = Inr tc" "as_num tc \<noteq> None" by blast
    from to_celsius_total [OF assms(2)] obtain f1 f2 fc where
      f: "py_sub feels_like (PInt 32) = Inr f1" "py_mul f1 (PInt 5) = Inr f2"
        "py_truediv f2 (PInt 9) = Inr fc" "as_num fc \<noteq> None" by blast
    show ?thesis
      by (rule that [of tc fc]) (simp_all add: True t f and_then_def)
  next
    case False
    show ?thesis
      by (rule that [of temp feels_like])
        (simp_all add: False small_number_num assms)
  qed
  from temperature_alerts_total [OF n(1) assms(1)] obtain a1 where
    a1: "temperature_alerts unit temp temp_c [] = Inr a1" ..
  from feels_like_alerts_total [OF n(2) assms(2)] obtain a2 where
    a2: "feels_like_alerts unit feels_like feels_like_c a1 = Inr a2" ..
  from humidity_alerts_total [OF small_number_num [OF assms(3)]] obtain a3 where
    a3: "humidity_alerts humidity a2 = Inr a3" ..
  from wind_alerts_total [OF assms(4)] obtain a4 where
    a4: "wind_alerts unit wind_speed a3 = Inr a4" ..
  from condition_alerts_total [OF assms(5)] obtain a5 where
    a5: "condition_alerts weather_id a4 = Inr a5" ..
  have "analyze_extreme_conditions
    (observation temp feels_like humidity wind_speed weather_id) unit = Inr a5"
    unfolding analyze_extreme_conditions_def
    by (simp add: observation_reads and_then_Inr conv a1 a2 a3 a4 a5)
  then show ?thesis ..
qed

subsection \<open>The condition chain\<close>

lemma condition_group_at_most_one:
  assumes "analyze_extreme_conditions data unit = Inr out"
  shows "length [a\<leftarrow>out. type a \<in> set [''storm'', ''rain'', ''snow'', ''fog'']] \<le> 1"
proof -
  have e4: "[a\<leftarrow>out. type a \<in> set [''storm'', ''rain'', ''snow'', ''fog'']] =
      [a\<leftarrow>out. group_rank a = 4]"
  proof (rule filter_cong)
    fix a assume "a \<in> set out"
    from analyze_types [OF assms this]
    show "(type a \<in> set [''storm'', ''rain'', ''snow'', ''fog'']) = (group_rank a = 4)"
      by (auto simp: group_rank_def)
  qed simp
  show ?thesis unfolding e4 using rank_at_most_one [OF assms] by simp
qed

lemma condition_alerts_int:
  "condition_alerts (PInt c) alerts = Inr (alerts @
     (if 200 \<le> c \<and> c < 300 then [thunderstorm_alert]
      else if 500 \<le> c \<and> c < 600 \<and> c \<noteq> 500 \<and> c \<noteq> 501 then [heavy_rain]
      else if 600 \<le> c \<and> c < 700 then [snow_alert (if c < 602 then ''moderate'' else ''high'')]
      else if 700 \<le> c \<and> c < 800 then [reduced_visibility]
      else []))"
  by (auto simp: condition_alerts_def cmp_defs and_then_def)

text \<open>
  At the speed rounded to one decimal, 44.7 mph, the quotient by \<^verbatim>\<open>2.237\<close> is below 20
  and the wind record is the moderate one.
\<close>

lemma float_44_7_literal: "double_of_rat (447 / 10) = float_44_7"
  by (simp add: round_defs float_44_7_def)

lemma rounded_speed_is_moderate:
  "category_severity (analyze_extreme_conditions
       (observation (PInt 95) (PInt 68) (PInt 50) (PFloat float_44_7) (PInt 800)) ''imperial'') =
     Inr [(''temperature'', ''high''), (''wind'', ''moderate'')]"
  by (simp add: eval_defs alert_defs round_defs arith_defs float_44_7_def)

subsection \<open>Selection by priority\<close>

lemma temperature_alerts_first:
  assumes "temperature_alerts unit temp temp_c alerts = Inr out"
  shows "\<exists>s. out = alerts @ temperature_priority unit temp_c s
    \<and> (temperature_priority unit temp_c s = [] \<or> py_format_1f temp = Inr s)"
  using assms
  unfolding temperature_alerts_def and_then_def holds_def temperature_priority_def
    temperature_records_def
  by (auto split: sum.splits if_splits)

lemma feels_like_alerts_first:
  assumes "feels_like_alerts unit feels_like feels_like_c alerts = Inr out"
  shows "\<exists>s. out = alerts @ feels_like_priority unit feels_like_c s
    \<and> (feels_like_priority unit feels_like_c s = [] \<or> py_format_1f feels_like = Inr s)"
  using assms
  unfolding feels_like_alerts_def and_then_def holds_def feels_like_priority_def
    feels_like_records_def
  by (auto split: sum.splits if_splits)

lemma humidity_alerts_first:
  assumes "humidity_alerts humidity alerts = Inr out"
  shows "out = alerts @ humidity_priority humidity"
  using assms
  unfolding humidity_alerts_def and_then_def holds_def humidity_priority_def
    humidity_records_def
  by (auto split: sum.splits if_splits)

lemma wind_alerts_first:
  assumes "wind_alerts unit wind_speed alerts = Inr out"
  shows "\<exists>wind_mps s. to_mps unit wind_speed = Inr wind_mps
    \<and> out = alerts @ wind_priority unit wind_mps s
    \<and> (wind_priority unit wind_mps s = [] \<or> py_format_1f wind_speed = Inr s)"
  using assms
  unfolding wind_alerts_def and_then_def holds_def wind_priority_def wind_records_def
    to_mps_def
  by (auto split: sum.splits if_splits)

lemma condition_alerts_first:
  assumes "condition_alerts weather_id alerts = Inr out"
  shows "out = alerts @ condition_priority weather_id"
  using assms
  unfolding condition_alerts_def and_then_def holds_def condition_priority_def
  by (auto split: sum.splits if_splits)

lemma analyze_steps:
  assumes "analyze_extreme_conditions data unit = Inr out"
  obtains temp feels_like humidity wind_speed weather0 weather_id temp_c feels_like_c
    a1 a2 a3 a4 where
    "py_get (dict_get data ''main'' (PDict [])) ''temp'' (PInt 0) = Inr temp"
    "py_get (dict_get data ''main'' (PDict [])) ''feels_like'' (PInt 0) = Inr feels_like"
    "py_get (dict_get data ''main'' (PDict [])) ''humidity'' (PInt 0) = Inr humidity"
    "py_get (dict_get data ''wind'' (PDict [])) ''speed'' (PInt 0) = Inr wind_speed"
    "py_index0 (dict_get data ''weather'' (PList [PDict []])) = Inr weather0"
    "py_get weather0 ''id'' (PInt 800) = Inr weather_id"
    "to_celsius unit temp = Inr temp_c"
    "to_celsius unit feels_like = Inr feels_like_c"
    "temperature_alerts unit temp temp_c [] = Inr a1"
    "feels_like_alerts unit feels_like feels_like_c a1 = Inr a2"
    "humidity_alerts humidity a2 = Inr a3"
    "wind_alerts unit wind_speed a3 = Inr a4"
    "condition_alerts weather_id a4 = Inr out"
  using assms unfolding analyze_extreme_conditions_def and_then_def to_celsius_def
  by (auto split: sum.splits prod.splits if_splits)

lemma first_match_length: "length (first_match xs) \<le> 1"
  by (induction xs) auto

lemma temperature_priority_filter:
  "[a\<leftarrow>temperature_priority unit temp_c s. type a = k] =
     (if k = ''temperature'' then temperature_priority unit temp_c s else [])"
  "[a\<leftarrow>temperature_priority unit temp_c s. type a \<in> set [''storm'', ''rain'', ''snow'', ''fog'']]
     = []"
  by (auto simp: temperature_priority_def temperature_records_def alert_defs)

lemma feels_like_priority_filter:
  "[a\<leftarrow>feels_like_priority unit feels_like_c s. type a = k] =
     (if k = ''feels_like'' then feels_like_priority unit feels_like_c s else [])"
  "[a\<leftarrow>feels_like_priority unit feels_like_c s.
      type a \<in> set [''storm'', ''rain'', ''snow'', ''fog'']] = []"
  by (auto simp: feels_like_priority_def feels_like_records_def alert_defs)

lemma humidity_priority_filter:
  "[a\<leftarrow>humidity_priority humidity. type a = k] =
     (if k = ''humidity'' then humidity_priority humidity else [])"
  "[a\<leftarrow>humidity_priority humidity. type a \<in> set [''storm'', ''rain'', ''snow'', ''fog'']] = []"
  by (auto simp: humidity_priority_def humidity_records_def alert_defs)

lemma wind_priority_filter:
  "[a\<leftarrow>wind_priority unit wind_mps s. type a = k] =
     (if k = ''wind'' then wind_priority unit wind_mps s else [])"
  "[a\<leftarrow>wind_priority unit wind_mps s. type a \<in> set [''storm'', ''rain'', ''snow'', ''fog'']] = []"
  by (auto simp: wind_priority_def wind_records_def alert_defs)

lemma condition_priority_filter:
  "k \<notin> set [''storm'', ''rain'', ''snow'', ''fog''] \<Longrightarrow>
     [a\<leftarrow>condition_priority weather_id. type a = k] = []"
  "[a\<leftarrow>condition_priority weather_id. type a \<in> set [''storm'', ''rain'', ''snow'', ''fog'']] =
     condition_priority weather_id"
  by (auto simp: condition_priority_def alert_defs)

lemmas priority_filter = temperature_priority_filter feels_like_priority_filter
  humidity_priority_filter wind_priority_filter condition_priority_filter

section \<open>Claims\<close>

text \<open>
  C5. For an observation with all measurements at normal values (unit metric, temp 20,
  feels-like 20, humidity 50, wind 2, condition code 800) the function returns the empty
  list.
\<close>

theorem normal_observation_no_alerts:
  "analyze_extreme_conditions
     (observation (PInt 20) (PInt 20) (PInt 50) (PInt 2) (PInt 800)) ''metric'' = Inr []"
  by (simp add: eval_defs)

text \<open>
  C10. On the empty dictionary (unit metric) the result is not empty: the defaults fall
  inside alert bands. There are exactly two records, the freezing-temperature record
  (severity moderate, since the default temperature 0 satisfies \<^verbatim>\<open>temp_c <= 0\<close>) and the
  low-humidity record (severity moderate, since the default humidity 0 satisfies
  \<^verbatim>\<open>humidity <= 20\<close>).
\<close>

theorem empty_observation_two_alerts:
  "analyze_extreme_conditions [] ''metric'' =
     Inr [freezing_temperature (''Temperature is 0.0'' @ degree_sign @ ''C''),
          low_humidity ''Humidity is 0%'']
   \<and> category_severity (analyze_extreme_conditions [] ''metric'') =
     Inr [(''temperature'', ''moderate''), (''humidity'', ''moderate'')]"
  by (simp add: eval_defs alert_defs round_defs dec.simps)

text \<open>
  C6. Independent groups fire together: a metric observation with temp 36, humidity 95,
  wind 25 and condition code 202 (feels-like absent) gives exactly four records, from the
  temperature, humidity, wind and storm groups, with severities high, moderate, high and
  high.
\<close>

theorem independent_groups_co_fire:
  "category_severity (analyze_extreme_conditions
     [(''main'', PDict [(''temp'', PInt 36), (''humidity'', PInt 95)]),
      (''wind'', PDict [(''speed'', PInt 25)]),
      (''weather'', PList [PDict [(''id'', PInt 202)]])] ''metric'') =
   Inr [(''temperature'', ''high''), (''humidity'', ''moderate''), (''wind'', ''high''),
        (''storm'', ''high'')]"
  by (simp add: eval_defs alert_defs)

text \<open>
  C4. Temperature boundaries in metric units, the other fields at normal values: the
  float 35.0 gives exactly one record, temperature with severity high; 34.9 gives exactly
  one, temperature with severity moderate; 30.0 gives temperature with severity moderate;
  29.9 gives no record.
\<close>

theorem temperature_boundaries:
  "category_severity (analyze_extreme_conditions
       (observation (PFloat (Finite 35)) (PInt 20) (PInt 50) (PInt 2) (PInt 800)) ''metric'') =
     Inr [(''temperature'', ''high'')]
   \<and> category_severity (analyze_extreme_conditions
       (observation (PFloat float_34_9) (PInt 20) (PInt 50) (PInt 2) (PInt 800)) ''metric'') =
     Inr [(''temperature'', ''moderate'')]
   \<and> category_severity (analyze_extreme_conditions
       (observation (PFloat (Finite 30)) (PInt 20) (PInt 50) (PInt 2) (PInt 800)) ''metric'') =
     Inr [(''temperature'', ''moderate'')]
   \<and> category_severity (analyze_extreme_conditions
       (observation (PFloat float_29_9) (PInt 20) (PInt 50) (PInt 2) (PInt 800)) ''metric'') =
     Inr []"
  by (simp add: eval_defs alert_defs float_34_9_def float_29_9_def)

text \<open>
  C2. Unit equivalence: the metric observation with temp 35 and wind 20 and the imperial
  observation with the converted values, 95 degrees Fahrenheit and 44.74 mph (the float whose
  quotient by 2.237 is 20.0), give the same categories and severities. The other fields are
  at normal values, the feels-like temperature converted too (20 and 68).
\<close>

theorem unit_equivalence: "category_severity (analyze_extreme_conditions
       (observation (PInt 35) (PInt 20) (PInt 50) (PInt 20) (PInt 800)) ''metric'') =
     Inr [(''temperature'', ''high''), (''wind'', ''high'')]
   \<and> category_severity (analyze_extreme_conditions
       (observation (PInt 95) (PInt 68) (PInt 50) (PFloat float_44_74) (PInt 800)) ''imperial'') =
     Inr [(''temperature'', ''high''), (''wind'', ''high'')]"
  by (simp add: eval_defs alert_defs round_defs arith_defs)

text \<open>
  C7. Each of the five groups (temperature, feels-like, humidity, wind, condition)
  contributes at most one record to a result, so a result has at most five records. Within a
  group the first condition that holds, in the listed order, wins and the later ones are
  skipped: the records of each group in a result are exactly the selection \<open>first_match\<close>
  makes from the group's rule list, on the values read from the input, the temperatures
  converted to Celsius and the speed to m/s as the unit requires, and the result is the five
  selections one after the other. For instance at -15 degrees, feels-like -25, humidity 95,
  wind 25 m/s and code 650, where the temperature satisfies both cold conditions and the wind
  both wind conditions, there are exactly five records, each that of the first condition.
\<close>

theorem one_record_per_group:
  assumes "analyze_extreme_conditions data unit = Inr out"
  shows "length [a\<leftarrow>out. type a = ''temperature''] \<le> 1
    \<and> length [a\<leftarrow>out. type a = ''feels_like''] \<le> 1
    \<and> length [a\<leftarrow>out. type a = ''humidity''] \<le> 1
    \<and> length [a\<leftarrow>out. type a = ''wind''] \<le> 1
    \<and> length [a\<leftarrow>out. type a \<in> set [''storm'', ''rain'', ''snow'', ''fog'']] \<le> 1
    \<and> length out \<le> 5
    \<and> (\<exists>temp feels_like humidity wind_speed weather0 weather_id temp_c feels_like_c wind_mps
          s_t s_f s_w.
        py_get (dict_get data ''main'' (PDict [])) ''temp'' (PInt 0) = Inr temp
      \<and> py_get (dict_get data ''main'' (PDict [])) ''feels_like'' (PInt 0) = Inr feels_like
      \<and> py_get (dict_get data ''main'' (PDict [])) ''humidity'' (PInt 0) = Inr humidity
      \<and> py_get (dict_get data ''wind'' (PDict [])) ''speed'' (PInt 0) = Inr wind_speed
      \<and> py_index0 (dict_get data ''weather'' (PList [PDict []])) = Inr weather0
      \<and> py_get weather0 ''id'' (PInt 800) = Inr weather_id
      \<and> to_celsius unit temp = Inr temp_c
      \<and> to_celsius unit feels_like = Inr feels_like_c
      \<and> to_mps unit wind_speed = Inr wind_mps
      \<and> [a\<leftarrow>out. type a = ''temperature''] = temperature_priority unit temp_c s_t
      \<and> (temperature_priority unit temp_c s_t = [] \<or> py_format_1f temp = Inr s_t)
      \<and> [a\<leftarrow>out. type a = ''feels_like''] = feels_like_priority unit feels_like_c s_f
      \<and> (feels_like_priority unit feels_like_c s_f = [] \<or> py_format_1f feels_like = Inr s_f)
      \<and> [a\<leftarrow>out. type a = ''humidity''] = humidity_priority humidity
      \<and> [a\<leftarrow>out. type a = ''wind''] = wind_priority unit wind_mps s_w
      \<and> (wind_priority unit wind_mps s_w = [] \<or> py_format_1f wind_speed = Inr s_w)
      \<and> [a\<leftarrow>out. type a \<in> set [''storm'', ''rain'', ''snow'', ''fog'']] =
          condition_priority weather_id
      \<and> out = temperature_priority unit temp_c s_t @ feels_like_priority unit feels_like_c s_f
          @ humidity_priority humidity @ wind_priority unit wind_mps s_w
          @ condition_priority weather_id)
    \<and> category_severity (analyze_extreme_conditions
        (observation (PInt (- 15)) (PInt (- 25)) (PInt 95) (PInt 25) (PInt 650)) ''metric'') =
      Inr [(''temperature'', ''high''), (''feels_like'', ''high''), (''humidity'', ''moderate''),
           (''wind'', ''high''), (''snow'', ''high'')]"
proof -
  from assms obtain temp feels_like humidity wind_speed weather0 weather_id temp_c feels_like_c
    a1 a2 a3 a4 where
    rd: "py_get (dict_get data ''main'' (PDict [])) ''temp'' (PInt 0) = Inr temp"
      "py_get (dict_get data ''main'' (PDict [])) ''feels_like'' (PInt 0) = Inr feels_like"
      "py_get (dict_get data ''main'' (PDict [])) ''humidity'' (PInt 0) = Inr humidity"
      "py_get (dict_get data ''wind'' (PDict [])) ''speed'' (PInt 0) = Inr wind_speed"
      "py_index0 (dict_get data ''weather'' (PList [PDict []])) = Inr weather0"
      "py_get weather0 ''id'' (PInt 800) = Inr weather_id"
    and cv: "to_celsius unit temp = Inr temp_c" "to_celsius unit feels_like = Inr feels_like_c"
    and ch: "temperature_alerts unit temp temp_c [] = Inr a1"
      "feels_like_alerts unit feels_like feels_like_c a1 = Inr a2"
      "humidity_alerts humidity a2 = Inr a3"
      "wind_alerts unit wind_speed a3 = Inr a4"
      "condition_alerts weather_id a4 = Inr out"
    by (rule analyze_steps)
  from temperature_alerts_first [OF ch(1)] obtain s_t where
    t: "a1 = temperature_priority unit temp_c s_t"
      "temperature_priority unit temp_c s_t = [] \<or> py_format_1f temp = Inr s_t" by auto
  from feels_like_alerts_first [OF ch(2)] obtain s_f where
    f: "a2 = a1 @ feels_like_priority unit feels_like_c s_f"
      "feels_like_priority unit feels_like_c s_f = [] \<or> py_format_1f feels_like = Inr s_f"
    by auto
  from humidity_alerts_first [OF ch(3)] have h: "a3 = a2 @ humidity_priority humidity" .
  from wind_alerts_first [OF ch(4)] obtain wind_mps s_w where
    w: "to_mps unit wind_speed = Inr wind_mps" "a4 = a3 @ wind_priority unit wind_mps s_w"
      "wind_priority unit wind_mps s_w = [] \<or> py_format_1f wind_speed = Inr s_w" by auto
  from condition_alerts_first [OF ch(5)] have c: "out = a4 @ condition_priority weather_id" .
  have o: "out = temperature_priority unit temp_c s_t @ feels_like_priority unit feels_like_c s_f
      @ humidity_priority humidity @ wind_priority unit wind_mps s_w
      @ condition_priority weather_id"
    using t(1) f(1) h w(2) c by simp
  have len: "length (temperature_priority unit temp_c s_t) \<le> 1"
    "length (feels_like_priority unit feels_like_c s_f) \<le> 1"
    "length (humidity_priority humidity) \<le> 1"
    "length (wind_priority unit wind_mps s_w) \<le> 1"
    "length (condition_priority weather_id) \<le> 1"
    unfolding temperature_priority_def feels_like_priority_def
      humidity_priority_def wind_priority_def condition_priority_def
    by (rule first_match_length)+
  have e0: "[a\<leftarrow>out. type a = ''temperature''] = temperature_priority unit temp_c s_t"
    unfolding o by (simp add: priority_filter)
  have e1: "[a\<leftarrow>out. type a = ''feels_like''] = feels_like_priority unit feels_like_c s_f"
    unfolding o by (simp add: priority_filter)
  have e2: "[a\<leftarrow>out. type a = ''humidity''] = humidity_priority humidity"
    unfolding o by (simp add: priority_filter)
  have e3: "[a\<leftarrow>out. type a = ''wind''] = wind_priority unit wind_mps s_w"
    unfolding o by (simp add: priority_filter)
  have e4: "[a\<leftarrow>out. type a \<in> set [''storm'', ''rain'', ''snow'', ''fog'']] =
      condition_priority weather_id"
    unfolding o by (simp only: filter_append priority_filter append_Nil append_Nil2)
  have bounds: "length [a\<leftarrow>out. type a = ''temperature''] \<le> 1
    \<and> length [a\<leftarrow>out. type a = ''feels_like''] \<le> 1
    \<and> length [a\<leftarrow>out. type a = ''humidity''] \<le> 1
    \<and> length [a\<leftarrow>out. type a = ''wind''] \<le> 1
    \<and> length [a\<leftarrow>out. type a \<in> set [''storm'', ''rain'', ''snow'', ''fog'']] \<le> 1
    \<and> length out \<le> 5"
    unfolding e0 e1 e2 e3 e4 using len unfolding o by simp
  have sel: "\<exists>temp feels_like humidity wind_speed weather0 weather_id temp_c feels_like_c wind_mps
          s_t s_f s_w.
        py_get (dict_get data ''main'' (PDict [])) ''temp'' (PInt 0) = Inr temp
      \<and> py_get (dict_get data ''main'' (PDict [])) ''feels_like'' (PInt 0) = Inr feels_like
      \<and> py_get (dict_get data ''main'' (PDict [])) ''humidity'' (PInt 0) = Inr humidity
      \<and> py_get (dict_get data ''wind'' (PDict [])) ''speed'' (PInt 0) = Inr wind_speed
      \<and> py_index0 (dict_get data ''weather'' (PList [PDict []])) = Inr weather0
      \<and> py_get weather0 ''id'' (PInt 800) = Inr weather_id
      \<and> to_celsius unit temp = Inr temp_c
      \<and> to_celsius unit feels_like = Inr feels_like_c
      \<and> to_mps unit wind_speed = Inr wind_mps
      \<and> [a\<leftarrow>out. type a = ''temperature''] = temperature_priority unit temp_c s_t
      \<and> (temperature_priority unit temp_c s_t = [] \<or> py_format_1f temp = Inr s_t)
      \<and> [a\<leftarrow>out. type a = ''feels_like''] = feels_like_priority unit feels_like_c s_f
      \<and> (feels_like_priority unit feels_like_c s_f = [] \<or> py_format_1f feels_like = Inr s_f)
      \<and> [a\<leftarrow>out. type a = ''humidity''] = humidity_priority humidity
      \<and> [a\<leftarrow>out. type a = ''wind''] = wind_priority unit wind_mps s_w
      \<and> (wind_priority unit wind_mps s_w = [] \<or> py_format_1f wind_speed = Inr s_w)
      \<and> [a\<leftarrow>out. type a \<in> set [''storm'', ''rain'', ''snow'', ''fog'']] =
          condition_priority weather_id
      \<and> out = temperature_priority unit temp_c s_t @ feels_like_priority unit feels_like_c s_f
          @ humidity_priority humidity @ wind_priority unit wind_mps s_w
          @ condition_priority weather_id"
    apply (rule exI [of _ temp], rule exI [of _ feels_like], rule exI [of _ humidity])
    apply (rule exI [of _ wind_speed], rule exI [of _ weather0], rule exI [of _ weather_id])
    apply (rule exI [of _ temp_c], rule exI [of _ feels_like_c], rule exI [of _ wind_mps])
    apply (rule exI [of _ s_t], rule exI [of _ s_f], rule exI [of _ s_w])
    using rd cv w(1) t(2) f(2) w(3) e0 e1 e2 e3 e4 o
    apply (intro conjI)
    apply assumption+
    done
  have inst: "category_severity (analyze_extreme_conditions
        (observation (PInt (- 15)) (PInt (- 25)) (PInt 95) (PInt 25) (PInt 650)) ''metric'') =
      Inr [(''temperature'', ''high''), (''feels_like'', ''high''), (''humidity'', ''moderate''),
           (''wind'', ''high''), (''snow'', ''high'')]"
    by (simp add: eval_defs alert_defs round_defs dec.simps)
  from bounds sel inst show ?thesis by (intro conjI) (elim conjE, assumption)+
qed

theorem one_record_per_group_witness:
  "analyze_extreme_conditions sample_observation ''imperial'' = Inr sample_alerts
    \<and> to_celsius ''imperial'' (PInt 95) = Inr (PFloat (Finite 35))
    \<and> holds (py_ge (PFloat (Finite 35)) 35) \<and> holds (py_ge (PFloat (Finite 35)) 30)
    \<and> [a\<leftarrow>sample_alerts. type a = ''temperature''] =
        [extreme_heat_warning (''Temperature is 95.0'' @ degree_sign @ ''F'')]
    \<and> temperature_priority ''imperial'' (PFloat (Finite 35)) ''95.0'' =
        [extreme_heat_warning (''Temperature is 95.0'' @ degree_sign @ ''F'')]
    \<and> length [a\<leftarrow>sample_alerts. type a = ''temperature''] \<le> 1
    \<and> length [a\<leftarrow>sample_alerts. type a = ''feels_like''] \<le> 1
    \<and> length [a\<leftarrow>sample_alerts. type a = ''humidity''] \<le> 1
    \<and> length [a\<leftarrow>sample_alerts. type a = ''wind''] \<le> 1
    \<and> length [a\<leftarrow>sample_alerts. type a \<in> set [''storm'', ''rain'', ''snow'', ''fog'']] \<le> 1
    \<and> length sample_alerts \<le> 5
    \<and> (\<exists>temp_c feels_like_c wind_mps s_t s_f s_w.
        to_celsius ''imperial'' (PInt 95) = Inr temp_c
      \<and> to_celsius ''imperial'' (PInt 68) = Inr feels_like_c
      \<and> to_mps ''imperial'' (PFloat float_44_74) = Inr wind_mps
      \<and> sample_alerts = temperature_priority ''imperial'' temp_c s_t
          @ feels_like_priority ''imperial'' feels_like_c s_f
          @ humidity_priority (PInt 50) @ wind_priority ''imperial'' wind_mps s_w
          @ condition_priority (PInt 202))"
proof -
  have r: "py_get (dict_get sample_observation ''main'' (PDict [])) ''temp'' (PInt 0) = Inr v
      \<longleftrightarrow> v = PInt 95"
    "py_get (dict_get sample_observation ''main'' (PDict [])) ''feels_like'' (PInt 0) = Inr v
      \<longleftrightarrow> v = PInt 68"
    "py_get (dict_get sample_observation ''main'' (PDict [])) ''humidity'' (PInt 0) = Inr v
      \<longleftrightarrow> v = PInt 50"
    "py_get (dict_get sample_observation ''wind'' (PDict [])) ''speed'' (PInt 0) = Inr v
      \<longleftrightarrow> v = PFloat float_44_74"
    "py_index0 (dict_get sample_observation ''weather'' (PList [PDict []])) = Inr v
      \<longleftrightarrow> v = PDict [(''id'', PInt 202)]"
    "py_get (PDict [(''id'', PInt 202)]) ''id'' (PInt 800) = Inr v \<longleftrightarrow> v = PInt 202" for v
    by (auto simp: sample_observation_def observation_def dict_get_def)
  have e: "to_celsius ''imperial'' (PInt 95) = Inr (PFloat (Finite 35))"
    "holds (py_ge (PFloat (Finite 35)) 35)" "holds (py_ge (PFloat (Finite 35)) 30)"
    "[a\<leftarrow>sample_alerts. type a = ''temperature''] =
        [extreme_heat_warning (''Temperature is 95.0'' @ degree_sign @ ''F'')]"
    "temperature_priority ''imperial'' (PFloat (Finite 35)) ''95.0'' =
        [extreme_heat_warning (''Temperature is 95.0'' @ degree_sign @ ''F'')]"
    by (simp_all add: to_celsius_def holds_def cmp_defs and_then_def arith_defs round_defs
      float_overflow_def
      sample_alerts_def alert_defs temperature_priority_def temperature_records_def)
  note th = one_record_per_group [OF sample_run]
  from th have b: "length [a\<leftarrow>sample_alerts. type a = ''temperature''] \<le> 1"
    "length [a\<leftarrow>sample_alerts. type a = ''feels_like''] \<le> 1"
    "length [a\<leftarrow>sample_alerts. type a = ''humidity''] \<le> 1"
    "length [a\<leftarrow>sample_alerts. type a = ''wind''] \<le> 1"
    "length [a\<leftarrow>sample_alerts. type a \<in> set [''storm'', ''rain'', ''snow'', ''fog'']] \<le> 1"
    "length sample_alerts \<le> 5"
    by simp_all
  from th obtain temp feels_like humidity wind_speed weather0 weather_id temp_c feels_like_c
    wind_mps s_t s_f s_w where
    g: "py_get (dict_get sample_observation ''main'' (PDict [])) ''temp'' (PInt 0) = Inr temp"
      "py_get (dict_get sample_observation ''main'' (PDict [])) ''feels_like'' (PInt 0) =
        Inr feels_like"
      "py_get (dict_get sample_observation ''main'' (PDict [])) ''humidity'' (PInt 0) =
        Inr humidity"
      "py_get (dict_get sample_observation ''wind'' (PDict [])) ''speed'' (PInt 0) =
        Inr wind_speed"
      "py_index0 (dict_get sample_observation ''weather'' (PList [PDict []])) = Inr weather0"
      "py_get weather0 ''id'' (PInt 800) = Inr weather_id"
    and k: "to_celsius ''imperial'' temp = Inr temp_c"
      "to_celsius ''imperial'' feels_like = Inr feels_like_c"
      "to_mps ''imperial'' wind_speed = Inr wind_mps"
      "sample_alerts = temperature_priority ''imperial'' temp_c s_t
          @ feels_like_priority ''imperial'' feels_like_c s_f
          @ humidity_priority humidity @ wind_priority ''imperial'' wind_mps s_w
          @ condition_priority weather_id"
    by blast
  from g(1-5) have v: "temp = PInt 95" "feels_like = PInt 68" "humidity = PInt 50"
    "wind_speed = PFloat float_44_74" "weather0 = PDict [(''id'', PInt 202)]"
    by (simp_all only: r)
  from g(6) have i: "weather_id = PInt 202" unfolding v by (simp only: r)
  from k have "\<exists>temp_c feels_like_c wind_mps s_t s_f s_w.
        to_celsius ''imperial'' (PInt 95) = Inr temp_c
      \<and> to_celsius ''imperial'' (PInt 68) = Inr feels_like_c
      \<and> to_mps ''imperial'' (PFloat float_44_74) = Inr wind_mps
      \<and> sample_alerts = temperature_priority ''imperial'' temp_c s_t
          @ feels_like_priority ''imperial'' feels_like_c s_f
          @ humidity_priority (PInt 50) @ wind_priority ''imperial'' wind_mps s_w
          @ condition_priority (PInt 202)"
    unfolding v i by blast
  with sample_run e b show ?thesis by (intro conjI) assumption+
qed

text \<open>
  C8. The records of a result stand in the order of evaluation: temperature, feels-like,
  humidity, wind, condition. They are not sorted by severity: a moderate temperature record
  stands before a high wind record, and it is the sort of \<^verbatim>\<open>display_alerts\<close> in the caller
  that puts the high one first.
\<close>

theorem evaluation_order:
  assumes "analyze_extreme_conditions data unit = Inr out"
  shows "sorted_wrt (<) (map group_rank out)
    \<and> category_severity (analyze_extreme_conditions
        (observation (PInt 32) (PInt 20) (PInt 50) (PInt 25) (PInt 800)) ''metric'') =
      Inr [(''temperature'', ''moderate''), (''wind'', ''high'')]
    \<and> category_severity (and_then (analyze_extreme_conditions
        (observation (PInt 32) (PInt 20) (PInt 50) (PInt 25) (PInt 800)) ''metric'')
        (\<lambda>alerts. Inr (display_sort alerts))) =
      Inr [(''wind'', ''high''), (''temperature'', ''moderate'')]"
  using ranks_increase [OF assms]
  by (simp add: eval_defs alert_defs display_sort_def severity_order_def)

theorem evaluation_order_witness:
  "analyze_extreme_conditions sample_observation ''imperial'' = Inr sample_alerts
    \<and> sorted_wrt (<) (map group_rank sample_alerts)"
  using evaluation_order [OF sample_run] sample_run by simp

text \<open>
  C3. Condition-code bands, the other fields at normal values (metric, temp 20, feels-like
  20, humidity 50, wind 2): code 501 gives no record; code 502 gives exactly one record, rain
  with severity moderate; code 602 gives a snow record with severity high; code 601 gives a
  snow record with severity moderate. In every result at most one record is of the condition
  group (storm, rain, snow, fog), and for an \<^verbatim>\<open>int\<close> code it is the record of the first
  band that matches, in the order thunderstorm (200 to 299), rain (500 to 599 except 500 and
  501), snow (600 to 699) and fog (700 to 799).
\<close>

theorem condition_code_bands:
  assumes "analyze_extreme_conditions data unit = Inr out"
  shows "category_severity (analyze_extreme_conditions
       (observation (PInt 20) (PInt 20) (PInt 50) (PInt 2) (PInt 501)) ''metric'') = Inr []
   \<and> category_severity (analyze_extreme_conditions
       (observation (PInt 20) (PInt 20) (PInt 50) (PInt 2) (PInt 502)) ''metric'') =
     Inr [(''rain'', ''moderate'')]
   \<and> category_severity (analyze_extreme_conditions
       (observation (PInt 20) (PInt 20) (PInt 50) (PInt 2) (PInt 602)) ''metric'') =
     Inr [(''snow'', ''high'')]
   \<and> category_severity (analyze_extreme_conditions
       (observation (PInt 20) (PInt 20) (PInt 50) (PInt 2) (PInt 601)) ''metric'') =
     Inr [(''snow'', ''moderate'')]
   \<and> length [a\<leftarrow>out. type a \<in> set [''storm'', ''rain'', ''snow'', ''fog'']] \<le> 1
   \<and> condition_alerts (PInt c) alerts = Inr (alerts @
     (if 200 \<le> c \<and> c < 300 then [thunderstorm_alert]
      else if 500 \<le> c \<and> c < 600 \<and> c \<noteq> 500 \<and> c \<noteq> 501 then [heavy_rain]
      else if 600 \<le> c \<and> c < 700 then [snow_alert (if c < 602 then ''moderate'' else ''high'')]
      else if 700 \<le> c \<and> c < 800 then [reduced_visibility]
      else []))"
proof -
  have "length [a\<leftarrow>out. type a \<in> set [''storm'', ''rain'', ''snow'', ''fog'']] \<le> 1"
    by (rule condition_group_at_most_one [OF assms])
  then show ?thesis unfolding condition_alerts_int
    by (simp add: eval_defs alert_defs)
qed

theorem condition_code_bands_witness:
  "analyze_extreme_conditions sample_observation ''imperial'' = Inr sample_alerts
   \<and> length [a\<leftarrow>sample_alerts. type a \<in> set [''storm'', ''rain'', ''snow'', ''fog'']] \<le> 1
   \<and> condition_alerts (PInt 202) [] = Inr [thunderstorm_alert]"
  using condition_code_bands [OF sample_run, of 202 "[]"] sample_run by simp

text \<open>
  C9. The description echoes the caller's unit. Every temperature, feels-like and wind
  record of a result is one of the literal records of the source whose description is built
  from the value as it was read from the input, formatted with one decimal, and the symbol of
  the unit: degrees F and mph when the unit is imperial, degrees C and m/s otherwise. The
  other fields of the record are fixed texts, so no field carries the value converted to
  Celsius or to m/s.
\<close>

theorem description_echoes_unit:
  assumes "analyze_extreme_conditions data unit = Inr out" and "a \<in> set out"
    and "py_get (dict_get data ''main'' (PDict [])) ''temp'' (PInt 0) = Inr temp"
    and "py_get (dict_get data ''main'' (PDict [])) ''feels_like'' (PInt 0) = Inr feels_like"
    and "py_get (dict_get data ''wind'' (PDict [])) ''speed'' (PInt 0) = Inr wind_speed"
  shows "(type a = ''temperature'' \<longrightarrow> (\<exists>s. py_format_1f temp = Inr s
        \<and> a \<in> set (temperature_records unit s)
        \<and> description a = ''Temperature is '' @ s @ degree_sign @
            (if unit = ''imperial'' then ''F'' else ''C'')))
    \<and> (type a = ''feels_like'' \<longrightarrow> (\<exists>s. py_format_1f feels_like = Inr s
        \<and> a \<in> set (feels_like_records unit s)
        \<and> description a = ''Feels like '' @ s @ degree_sign @
            (if unit = ''imperial'' then ''F'' else ''C'')))
    \<and> (type a = ''wind'' \<longrightarrow> (\<exists>s. py_format_1f wind_speed = Inr s
        \<and> a \<in> set (wind_records unit s)
        \<and> description a = ''Wind speed is '' @ s @ '' '' @
            (if unit = ''imperial'' then ''mph'' else ''m/s'')))"
proof -
  from assms(1) obtain temp' feels_like' humidity wind_speed' t f h w c where
    rd: "py_get (dict_get data ''main'' (PDict [])) ''temp'' (PInt 0) = Inr temp'"
      "py_get (dict_get data ''main'' (PDict [])) ''feels_like'' (PInt 0) = Inr feels_like'"
      "py_get (dict_get data ''wind'' (PDict [])) ''speed'' (PInt 0) = Inr wind_speed'"
    and o: "out = t @ f @ h @ w @ c"
    and t: "t = [] \<or> (\<exists>s r. py_format_1f temp' = Inr s \<and> r \<in> set (temperature_records unit s) \<and> t = [r])"
    and f: "f = [] \<or> (\<exists>s r. py_format_1f feels_like' = Inr s \<and> r \<in> set (feels_like_records unit s) \<and> f = [r])"
    and h: "h = [] \<or> (\<exists>r. r \<in> set (humidity_records humidity) \<and> h = [r])"
    and w: "w = [] \<or> (\<exists>s r. py_format_1f wind_speed' = Inr s \<and> r \<in> set (wind_records unit s) \<and> w = [r])"
    and c: "c = [] \<or> (\<exists>r. r \<in> set condition_records \<and> c = [r])"
    by (rule analyze_parts)
  have eq: "temp' = temp" "feels_like' = feels_like" "wind_speed' = wind_speed"
    using rd assms(3-5) by simp_all
  have pt: "part_of 0 t" using t temperature_records_rank by (auto simp: part_of_def)
  have pf: "part_of 1 f" using f feels_like_records_rank by (auto simp: part_of_def)
  have ph: "part_of 2 h" using h humidity_records_rank by (auto simp: part_of_def)
  have pw: "part_of 3 w" using w wind_records_rank by (auto simp: part_of_def)
  have pc: "part_of 4 c" using c condition_records_rank by (auto simp: part_of_def)
  have mem: "a \<in> set t \<or> a \<in> set f \<or> a \<in> set h \<or> a \<in> set w \<or> a \<in> set c"
    using assms(2) unfolding o by auto
  have rk: "a \<in> set t \<Longrightarrow> group_rank a = 0" "a \<in> set f \<Longrightarrow> group_rank a = 1"
    "a \<in> set h \<Longrightarrow> group_rank a = 2" "a \<in> set w \<Longrightarrow> group_rank a = 3"
    "a \<in> set c \<Longrightarrow> group_rank a = 4"
    using part_of_rank pt pf ph pw pc by blast+
  have dt: "\<And>s r. r \<in> set (temperature_records unit s) \<Longrightarrow>
      description r = ''Temperature is '' @ s @ degree_sign @ (if unit = ''imperial'' then ''F'' else ''C'')"
    by (auto simp: temperature_records_def alert_defs)
  have df: "\<And>s r. r \<in> set (feels_like_records unit s) \<Longrightarrow>
      description r = ''Feels like '' @ s @ degree_sign @ (if unit = ''imperial'' then ''F'' else ''C'')"
    by (auto simp: feels_like_records_def alert_defs)
  have dw: "\<And>s r. r \<in> set (wind_records unit s) \<Longrightarrow>
      description r = ''Wind speed is '' @ s @ '' '' @ (if unit = ''imperial'' then ''mph'' else ''m/s'')"
    by (auto simp: wind_records_def alert_defs)
  have i1: "type a = ''temperature'' \<Longrightarrow> a \<in> set t"
    using mem rk by (auto simp: group_rank_def split: if_splits)
  have i2: "type a = ''feels_like'' \<Longrightarrow> a \<in> set f"
    using mem rk by (auto simp: group_rank_def split: if_splits)
  have i3: "type a = ''wind'' \<Longrightarrow> a \<in> set w"
    using mem rk by (auto simp: group_rank_def split: if_splits)
  show ?thesis
  proof (intro conjI impI)
    assume "type a = ''temperature''"
    then have "a \<in> set t" by (rule i1)
    with t dt show "\<exists>s. py_format_1f temp = Inr s \<and> a \<in> set (temperature_records unit s)
        \<and> description a = ''Temperature is '' @ s @ degree_sign @
            (if unit = ''imperial'' then ''F'' else ''C'')"
      unfolding eq by fastforce
  next
    assume "type a = ''feels_like''"
    then have "a \<in> set f" by (rule i2)
    with f df show "\<exists>s. py_format_1f feels_like = Inr s \<and> a \<in> set (feels_like_records unit s)
        \<and> description a = ''Feels like '' @ s @ degree_sign @
            (if unit = ''imperial'' then ''F'' else ''C'')"
      unfolding eq by fastforce
  next
    assume "type a = ''wind''"
    then have "a \<in> set w" by (rule i3)
    with w dw show "\<exists>s. py_format_1f wind_speed = Inr s \<and> a \<in> set (wind_records unit s)
        \<and> description a = ''Wind speed is '' @ s @ '' '' @
            (if unit = ''imperial'' then ''mph'' else ''m/s'')"
      unfolding eq by fastforce
  qed
qed

theorem description_echoes_unit_witness:
  "analyze_extreme_conditions sample_observation ''imperial'' = Inr sample_alerts
   \<and> extreme_heat_warning (''Temperature is 95.0'' @ degree_sign @ ''F'') \<in> set sample_alerts
   \<and> py_get (dict_get sample_observation ''main'' (PDict [])) ''temp'' (PInt 0) = Inr (PInt 95)
   \<and> py_get (dict_get sample_observation ''main'' (PDict [])) ''feels_like'' (PInt 0) =
       Inr (PInt 68)
   \<and> py_get (dict_get sample_observation ''wind'' (PDict [])) ''speed'' (PInt 0) =
       Inr (PFloat float_44_74)
   \<and> type (extreme_heat_warning (''Temperature is 95.0'' @ degree_sign @ ''F'')) = ''temperature''
   \<and> (\<exists>s. py_format_1f (PInt 95) = Inr s
        \<and> extreme_heat_warning (''Temperature is 95.0'' @ degree_sign @ ''F'') \<in>
            set (temperature_records ''imperial'' s)
        \<and> description (extreme_heat_warning (''Temperature is 95.0'' @ degree_sign @ ''F'')) =
            ''Temperature is '' @ s @ degree_sign @ ''F'')"
proof -
  have a: "extreme_heat_warning (''Temperature is 95.0'' @ degree_sign @ ''F'') \<in> set sample_alerts"
    by (simp add: sample_alerts_def)
  have r: "py_get (dict_get sample_observation ''main'' (PDict [])) ''temp'' (PInt 0) = Inr (PInt 95)"
    "py_get (dict_get sample_observation ''main'' (PDict [])) ''feels_like'' (PInt 0) =
       Inr (PInt 68)"
    "py_get (dict_get sample_observation ''wind'' (PDict [])) ''speed'' (PInt 0) =
       Inr (PFloat float_44_74)"
    by (simp_all add: sample_observation_def observation_def dict_get_def)
  have t: "type (extreme_heat_warning (''Temperature is 95.0'' @ degree_sign @ ''F'')) = ''temperature''"
    by (simp add: extreme_heat_warning_def)
  from description_echoes_unit [OF sample_run a r] t sample_run a r show ?thesis by simp
qed

text \<open>
  C1. The function is not total on all dictionaries. An empty \<^verbatim>\<open>"weather"\<close> list raises
  \<^verbatim>\<open>IndexError\<close> at \<^verbatim>\<open>[0]\<close>; a temperature that is a string raises \<^verbatim>\<open>TypeError\<close> at the
  first comparison; a \<^verbatim>\<open>"main"\<close> entry that is \<^verbatim>\<open>None\<close> raises \<^verbatim>\<open>AttributeError\<close> at
  \<^verbatim>\<open>.get\<close>; an \<^verbatim>\<open>int\<close> temperature too large for a \<^verbatim>\<open>float\<close> raises \<^verbatim>\<open>OverflowError\<close> in
  the f-string.
\<close>

theorem raises_on_malformed_input:
  "analyze_extreme_conditions [(''weather'', PList [])] ''metric'' = Inl IndexError
   \<and> analyze_extreme_conditions [(''main'', PDict [(''temp'', PStr ''hot'')])] ''metric'' =
     Inl TypeError
   \<and> analyze_extreme_conditions [(''main'', PNone)] ''metric'' = Inl AttributeError
   \<and> analyze_extreme_conditions [(''main'', PDict [(''temp'', PInt (10 ^ 309))])] ''metric'' =
     Inl OverflowError"
  by (simp add: eval_defs)

text \<open>
  C1, on well-formed input. When \<^verbatim>\<open>"main"\<close> and \<^verbatim>\<open>"wind"\<close>, if present, are dictionaries,
  \<^verbatim>\<open>"weather"\<close>, if present, is a list whose first element is a dictionary, and the fields
  that are present are numbers (\<^verbatim>\<open>int\<close>s of temperature, feels-like, humidity and speed of
  magnitude below \<open>2 ^ 1024 - 2 ^ 970\<close>), the function returns a list, for every unit. The
  result is that of the full observation in which a missing temperature, feels-like,
  humidity or speed is 0 and a missing condition code is 800.
\<close>

theorem total_on_well_formed:
  assumes "well_formed data"
  shows "(\<exists>out. analyze_extreme_conditions data unit = Inr out)
    \<and> analyze_extreme_conditions data unit = analyze_extreme_conditions
        (observation (field_or data ''main'' ''temp'' (PInt 0))
          (field_or data ''main'' ''feels_like'' (PInt 0))
          (field_or data ''main'' ''humidity'' (PInt 0))
          (field_or data ''wind'' ''speed'' (PInt 0))
          (first_weather_id data)) unit"
proof -
  from assms have m: "dict_entry data ''main''" and w: "dict_entry data ''wind''"
    and e: "weather_entry data"
    and s: "small_number (field_or data ''main'' ''temp'' (PInt 0))"
      "small_number (field_or data ''main'' ''feels_like'' (PInt 0))"
      "small_number (field_or data ''main'' ''humidity'' (PInt 0))"
      "small_number (field_or data ''wind'' ''speed'' (PInt 0))"
      "as_num (first_weather_id data) \<noteq> None"
    by (simp_all add: well_formed_def)
  from read_weather_id [OF e] obtain w0 where
    i: "py_index0 (dict_get data ''weather'' (PList [PDict []])) = Inr w0"
      "py_get w0 ''id'' (PInt 800) = Inr (first_weather_id data)" by blast
  have eq: "analyze_extreme_conditions data unit = analyze_extreme_conditions
        (observation (field_or data ''main'' ''temp'' (PInt 0))
          (field_or data ''main'' ''feels_like'' (PInt 0))
          (field_or data ''main'' ''humidity'' (PInt 0))
          (field_or data ''wind'' ''speed'' (PInt 0))
          (first_weather_id data)) unit"
    by (rule analyze_of_reads [OF read_field [OF m] read_field [OF m] read_field [OF m]
      read_field [OF w] i])
  from analyze_observation_total [OF s] show ?thesis unfolding eq by simp
qed

theorem total_on_well_formed_witness:
  "well_formed [(''main'', PDict [(''temp'', PInt 36)])]
   \<and> (\<exists>out. analyze_extreme_conditions [(''main'', PDict [(''temp'', PInt 36)])] ''metric'' =
     Inr out)
   \<and> analyze_extreme_conditions [(''main'', PDict [(''temp'', PInt 36)])] ''metric'' =
     analyze_extreme_conditions
       (observation (PInt 36) (PInt 0) (PInt 0) (PInt 0) (PInt 800)) ''metric''"
proof -
  have wf: "well_formed [(''main'', PDict [(''temp'', PInt 36)])]"
    by (simp add: well_formed_def dict_entry_def weather_entry_def field_or_def
      first_weather_id_def small_number_def dict_get_def float_overflow_def)
  have f: "field_or [(''main'', PDict [(''temp'', PInt 36)])] ''main'' ''temp'' (PInt 0) = PInt 36"
    "field_or [(''main'', PDict [(''temp'', PInt 36)])] ''main'' ''feels_like'' (PInt 0) = PInt 0"
    "field_or [(''main'', PDict [(''temp'', PInt 36)])] ''main'' ''humidity'' (PInt 0) = PInt 0"
    "field_or [(''main'', PDict [(''temp'', PInt 36)])] ''wind'' ''speed'' (PInt 0) = PInt 0"
    "first_weather_id [(''main'', PDict [(''temp'', PInt 36)])] = PInt 800"
    by (simp_all add: field_or_def first_weather_id_def dict_get_def)
  from total_on_well_formed [OF wf, of "''metric''", unfolded f] wf show ?thesis by blast
qed

end
